theory Spec2Isabelle
  imports Main "HOL-Library.Word"
begin

section \<open>Data model of the plan tree\<close>

text \<open>
  The plan-tree compiler of rocFFT works on \<^verbatim>\<open>TreeNode\<close> objects.  Extents, strides,
  distances and batch counts are \<^verbatim>\<open>size_t\<close>, modelled as 64-bit words; vectors are
  lists, and an access outside a vector (undefined behaviour in C++) is an error value.
\<close>

type_synonym size_t = "64 word"

datatype error =
    OutOfRange
  | AssertionFailed
  | DivisionByZero
  | KernelMissing
  | RuntimeError string
  | LdsExceeded "32 word" size_t

datatype rocfft_precision = rocfft_precision_single | rocfft_precision_double

datatype rocfft_array_type =
    rocfft_array_type_complex_interleaved
  | rocfft_array_type_complex_planar
  | rocfft_array_type_real
  | rocfft_array_type_hermitian_interleaved
  | rocfft_array_type_hermitian_planar
  | rocfft_array_type_unset

datatype ComputeScheme =
    CS_NONE
  | CS_KERNEL_STOCKHAM
  | CS_KERNEL_STOCKHAM_BLOCK_CC
  | CS_KERNEL_STOCKHAM_BLOCK_RC
  | CS_KERNEL_STOCKHAM_BLOCK_CR
  | CS_KERNEL_TRANSPOSE
  | CS_KERNEL_TRANSPOSE_XY_Z
  | CS_KERNEL_TRANSPOSE_Z_XY
  | CS_KERNEL_STOCKHAM_TRANSPOSE_XY_Z
  | CS_KERNEL_STOCKHAM_TRANSPOSE_Z_XY
  | CS_REAL_TRANSFORM_USING_CMPLX
  | CS_KERNEL_COPY_R_TO_CMPLX
  | CS_KERNEL_COPY_CMPLX_TO_HERM
  | CS_KERNEL_COPY_HERM_TO_CMPLX
  | CS_KERNEL_COPY_CMPLX_TO_R
  | CS_REAL_TRANSFORM_EVEN
  | CS_KERNEL_R_TO_CMPLX
  | CS_KERNEL_R_TO_CMPLX_TRANSPOSE
  | CS_KERNEL_CMPLX_TO_R
  | CS_REAL_2D_EVEN
  | CS_REAL_3D_EVEN
  | CS_KERNEL_APPLY_CALLBACK
  | CS_BLUESTEIN
  | CS_KERNEL_2D_SINGLE

datatype EmbeddedType = NONE | C2Real_PRE | Real2C_POST

datatype NodeType = NT_UNDEFINED | NT_INTERNAL | NT_LEAF

datatype Real2DEvenSolution = INPLACE_SBCC | TR_PAIR

text \<open>
  A fuse shim names its target (\<^verbatim>\<open>FuseType\<close>) and refers to two or three sibling nodes;
  the reference to a sibling is its position among the children of the parent.
\<close>

datatype FuseType =
    FT_TRANS_WITH_STOCKHAM
  | FT_STOCKHAM_WITH_TRANS
  | FT_R2C_TRANSPOSE
  | FT_TRANSPOSE_C2R
  | FT_STOCKHAM_R2C_TRANSPOSE

text \<open>The two device properties that are read: \<^verbatim>\<open>hipDeviceProp_t\<close>.\<close>

record DeviceProp =
  sharedMemPerBlock :: size_t
  gcnArchName :: string

text \<open>
  The fields of \<^verbatim>\<open>TreeNode\<close> that the functions below read or write.  The vector
  \<^verbatim>\<open>length\<close> is the field \<open>lengthv\<close>.  The flag \<open>try_fuse_pre_post_processing\<close> is the
  public member of \<^verbatim>\<open>RealTransEvenNode\<close>, and \<open>solution\<close> the member of
  \<^verbatim>\<open>Real2DEvenNode\<close>.
\<close>

record NodeInfo =
  scheme :: ComputeScheme
  nodeType :: NodeType
  dimension :: size_t
  batch :: size_t
  lengthv :: "size_t list"
  outputLength :: "size_t list"
  inStride :: "size_t list"
  outStride :: "size_t list"
  iDist :: size_t
  oDist :: size_t
  direction :: int
  precision :: rocfft_precision
  inArrayType :: rocfft_array_type
  outArrayType :: rocfft_array_type
  ebtype :: EmbeddedType
  allowOutofplace :: bool
  allowedOutArrayTypes :: "rocfft_array_type list"
  try_fuse_pre_post_processing :: bool
  solution :: Real2DEvenSolution
  comments :: "string list"
  deviceProp :: DeviceProp
  fuseShims :: "(FuseType \<times> nat list) list"

text \<open>A node exclusively owns the ordered sequence of its children.\<close>

datatype TreeNode = TreeNode (info: NodeInfo) (childNodes: "TreeNode list")

text \<open>Sequencing of fallible steps: the first error ends the computation.\<close>

definition bind_err :: "error + 'a \<Rightarrow> ('a \<Rightarrow> error + 'b) \<Rightarrow> error + 'b" where
  "bind_err m f = (case m of Inl e \<Rightarrow> Inl e | Inr x \<Rightarrow> f x)"

text \<open>\<^verbatim>\<open>v[i]\<close> on a \<^verbatim>\<open>std::vector\<close>: defined only for \<open>i < v.size()\<close>.\<close>

definition at_vec :: "'a list \<Rightarrow> nat \<Rightarrow> error + 'a" where
  "at_vec v i = (if i < length v then Inr (v ! i) else Inl OutOfRange)"

text \<open>\<^verbatim>\<open>assert(c)\<close>.\<close>

definition assert_that :: "bool \<Rightarrow> error + unit" where
  "assert_that c = (if c then Inr () else Inl AssertionFailed)"

section \<open>Real and complex lengths of a real-complex plan\<close>

text \<open>
  \<^verbatim>\<open>set_complex_length\<close> hands back two pointers into the node, to its \<^verbatim>\<open>length\<close> or
  to its \<^verbatim>\<open>outputLength\<close>; a pointer is modelled by the name of the field it points to,
  and it is read with \<open>deref\<close> in the node's current state.
\<close>

datatype LengthRef = RefLength | RefOutputLength

fun deref :: "NodeInfo \<Rightarrow> LengthRef \<Rightarrow> size_t list" where
  "deref node RefLength = lengthv node"
| "deref node RefOutputLength = outputLength node"

text \<open>
  The result is the updated node with \<open>(realLength, complexLength)\<close>.  The two updates of
  \<^verbatim>\<open>outputLength.front()\<close> need a non-empty vector.
\<close>

definition set_complex_length :: "NodeInfo \<Rightarrow> error + (NodeInfo \<times> LengthRef \<times> LengthRef)" where
  "set_complex_length node =
     (case lengthv node of
        [] \<Rightarrow> Inl OutOfRange
      | l0 # ls \<Rightarrow>
          (let node1 = node\<lparr>outputLength := l0 # ls\<rparr>;
               node2 = node1\<lparr>outputLength := (hd (outputLength node1) div 2) # tl (outputLength node1)\<rparr>;
               node3 = node2\<lparr>outputLength := (hd (outputLength node2) + 1) # tl (outputLength node2)\<rparr>
           in if direction node3 = - 1
              then Inr (node3, RefLength, RefOutputLength)
              else Inr (node3\<lparr>lengthv := outputLength node3, outputLength := lengthv node3\<rparr>,
                        RefOutputLength, RefLength)))"


section \<open>The kernel catalog\<close>

text \<open>
  Modelled from the spec: the capability catalog \<^verbatim>\<open>function_pool\<close> (function_pool.h is
  absent) answers \<open>has_kernel(length, precision, scheme)\<close> and
  \<open>get_kernel(length, precision, scheme)\<close>; it is taken here as a finite table from keys
  to kernel descriptions, passed to every function that consults it.  A key \<^verbatim>\<open>FMKey\<close>
  holds two lengths, the precision, the scheme, the SBRC transpose type and, in its
  kernel configuration, the embedded type.
\<close>

datatype SBRC_TRANSPOSE_TYPE = SBRC_NONE | SBRC_DIAGONAL | SBRC_TILE_ALIGNED | SBRC_TILE_UNALIGNED

record FMKey =
  lengths0 :: size_t
  lengths1 :: size_t
  key_precision :: rocfft_precision
  key_scheme :: ComputeScheme
  sbrcTrans :: SBRC_TRANSPOSE_TYPE
  kernel_config_ebType :: EmbeddedType

record FFTKernel =
  transforms_per_block :: size_t
  half_lds :: bool
  direct_to_from_reg :: bool
  factors :: "size_t list"

type_synonym function_pool = "FMKey \<Rightarrow> FFTKernel option"

definition fpkey :: "size_t \<Rightarrow> rocfft_precision \<Rightarrow> ComputeScheme \<Rightarrow> FMKey" where
  "fpkey len prec sch =
     \<lparr>lengths0 = len, lengths1 = 0, key_precision = prec, key_scheme = sch,
      sbrcTrans = SBRC_NONE, kernel_config_ebType = NONE\<rparr>"

definition has_function :: "function_pool \<Rightarrow> FMKey \<Rightarrow> bool" where
  "has_function pool key = (pool key \<noteq> None)"

definition get_kernel :: "function_pool \<Rightarrow> FMKey \<Rightarrow> error + FFTKernel" where
  "get_kernel pool key = (case pool key of None \<Rightarrow> Inl KernelMissing | Some k \<Rightarrow> Inr k)"

definition has_SBCC_kernel :: "function_pool \<Rightarrow> size_t \<Rightarrow> rocfft_precision \<Rightarrow> bool" where
  "has_SBCC_kernel pool len prec = has_function pool (fpkey len prec CS_KERNEL_STOCKHAM_BLOCK_CC)"

section \<open>Availability of a column-block kernel along a dimension\<close>

text \<open>
  \<^verbatim>\<open>SBCC_dim_available\<close>.  The first step finds \<open>numTrans\<close> and \<open>have_sbcc\<close>, or leaves
  with \<open>false\<close> (the value \<open>None\<close>) when the catalog has neither kernel.  A key built
  without a scheme is a key of the scheme \<open>CS_KERNEL_STOCKHAM\<close>.
\<close>

definition SBCC_dim_available ::
  "function_pool \<Rightarrow> size_t list \<Rightarrow> nat \<Rightarrow> rocfft_precision \<Rightarrow> error + bool" where
  "SBCC_dim_available pool len sbcc_dim prec =
     bind_err (at_vec len sbcc_dim) (\<lambda>ld.
       let sbcc_key = fpkey ld prec CS_KERNEL_STOCKHAM_BLOCK_CC in
       bind_err
         (if has_function pool sbcc_key
          then bind_err (get_kernel pool sbcc_key)
                 (\<lambda>k. Inr (Some (transforms_per_block k, True)))
          else (let normal_key = fpkey ld prec CS_KERNEL_STOCKHAM in
                if \<not> has_function pool normal_key then Inr None
                else bind_err (get_kernel pool normal_key)
                       (\<lambda>k. Inr (Some (transforms_per_block k, False)))))
         (\<lambda>found. case found of
            None \<Rightarrow> Inr False
          | Some (numTrans, have_sbcc) \<Rightarrow>
              bind_err (at_vec len 0) (\<lambda>l0.
                if l0 < numTrans \<and> \<not> have_sbcc then Inr False
                else if \<not> have_sbcc
                        \<and> numTrans < (if prec = rocfft_precision_single then 8 else 4)
                     then Inr False
                     else Inr True)))"

section \<open>Creating nodes\<close>

text \<open>
  \<^verbatim>\<open>NodeMetaData\<close>: the description from which an explicit node is created.  Its
  constructor \<^verbatim>\<open>NodeMetaData(TreeNode* refNode)\<close> copies precision, batch, direction and
  device properties of the reference node (and \<^verbatim>\<open>rootIsC2C\<close>, a query along the parent
  chain that no function below reads).
\<close>

record NodeMetaData =
  md_precision :: rocfft_precision
  md_batch :: size_t
  md_direction :: int
  md_deviceProp :: DeviceProp
  md_dimension :: size_t
  md_length :: "size_t list"

definition NodeMetaData_of :: "NodeInfo \<Rightarrow> NodeMetaData" where
  "NodeMetaData_of refNode =
     \<lparr>md_precision = precision refNode, md_batch = batch refNode,
      md_direction = direction refNode, md_deviceProp = deviceProp refNode,
      md_dimension = 0, md_length = []\<rparr>"

text \<open>
  The parts of the planner that are defined outside the two source files modelled here
  (the tree node and the real-transform nodes) are parameters:
  \<^item> \<open>fresh_node\<close>: the fields of a newly constructed \<^verbatim>\<open>TreeNode\<close> (the default member
    initialisers of tree_node.h, among them the default of
    \<open>try_fuse_pre_post_processing\<close>);
  \<^item> \<open>CreateExplicitNode\<close>: \<^verbatim>\<open>NodeFactory::CreateExplicitNode(data, parent)\<close>, which
    chooses the scheme of a complex transform from its metadata;
  \<^item> \<open>RecursiveBuildTree\<close>: the recursive builder of such a node, which may fail;
  \<^item> \<open>AssignParams\<close>: the layout pass of such a node;
  \<^item> \<open>IsSchemeFusable\<close>: the feasibility query of a fuse shim over the nodes it refers to.
\<close>

record planner_env =
  fresh_node :: NodeInfo
  CreateExplicitNode :: "NodeMetaData \<Rightarrow> NodeInfo \<Rightarrow> TreeNode"
  RecursiveBuildTree :: "TreeNode \<Rightarrow> error + TreeNode"
  AssignParams :: "TreeNode \<Rightarrow> error + TreeNode"
  IsSchemeFusable :: "FuseType \<Rightarrow> TreeNode list \<Rightarrow> bool"

text \<open>
  Modelled from the spec: \<^verbatim>\<open>NodeFactory::CreateNodeFromScheme(scheme, parent)\<close>
  (node_factory.cpp is absent) is the factory keyed by scheme: it makes a childless node
  of that scheme, which takes precision, batch, direction and device properties from its
  parent, as \<^verbatim>\<open>NodeMetaData\<close> does.
\<close>

definition CreateNodeFromScheme :: "planner_env \<Rightarrow> ComputeScheme \<Rightarrow> NodeInfo \<Rightarrow> TreeNode" where
  "CreateNodeFromScheme env s p =
     TreeNode ((fresh_node env)\<lparr>scheme := s, precision := precision p, batch := batch p,
                                direction := direction p, deviceProp := deviceProp p\<rparr>) []"

definition map_info :: "(NodeInfo \<Rightarrow> NodeInfo) \<Rightarrow> TreeNode \<Rightarrow> TreeNode" where
  "map_info f t = TreeNode (f (info t)) (childNodes t)"

text \<open>Modelled from the spec: \<^verbatim>\<open>isLeafNode()\<close> (tree_node.h is absent): the node is a single kernel.\<close>

definition isLeafNode :: "TreeNode \<Rightarrow> bool" where
  "isLeafNode t = (nodeType (info t) = NT_LEAF)"

text \<open>
  Modelled from the spec: \<^verbatim>\<open>GetLastLeaf()\<close> (tree_node.h is absent) is the leaf that runs
  last: the node itself when it is a leaf, the last leaf of its last child otherwise.
  \<open>GetLastLeaf_update f t\<close> is \<open>t\<close> after \<open>f\<close> has been applied to that leaf.
\<close>

function GetLastLeaf_update :: "(NodeInfo \<Rightarrow> NodeInfo) \<Rightarrow> TreeNode \<Rightarrow> error + TreeNode" where
  "GetLastLeaf_update f (TreeNode i cs) =
     (if nodeType i = NT_LEAF then Inr (TreeNode (f i) cs)
      else if cs = [] then Inl OutOfRange
      else bind_err (GetLastLeaf_update f (last cs))
             (\<lambda>c. Inr (TreeNode i (butlast cs @ [c]))))"
  by pat_completeness auto
termination
proof (relation "measure (\<lambda>(f, t). size t)")
  show "wf (measure (\<lambda>(f, t). size t))"
    by simp
next
  fix f :: "NodeInfo \<Rightarrow> NodeInfo" and i :: NodeInfo and cs :: "TreeNode list"
  assume "cs \<noteq> []"
  then have "last cs \<in> set cs"
    by simp
  then have "size (last cs) \<le> size_list size cs"
    by (simp add: size_list_estimation')
  then show "((f, last cs), (f, TreeNode i cs)) \<in> measure (\<lambda>(f, t). size t)"
    by simp
qed

text \<open>\<^verbatim>\<open>std::swap(v[i], v[j])\<close>.\<close>

definition swap_vec :: "'a list \<Rightarrow> nat \<Rightarrow> nat \<Rightarrow> error + 'a list" where
  "swap_vec v i j =
     (if i < length v \<and> j < length v then Inr (v[i := v ! j, j := v ! i]) else Inl OutOfRange)"

text \<open>\<^verbatim>\<open>v[i] = f(v[i])\<close>, as in \<^verbatim>\<open>v[0] /= 2\<close> and \<^verbatim>\<open>v.front() += 1\<close>.\<close>

definition modify_vec :: "'a list \<Rightarrow> nat \<Rightarrow> ('a \<Rightarrow> 'a) \<Rightarrow> error + 'a list" where
  "modify_vec v i f = (if i < length v then Inr (v[i := f (v ! i)]) else Inl OutOfRange)"

section \<open>CS_REAL_TRANSFORM_USING_CMPLX\<close>

definition RealTransCmplxNode_BuildTree_internal :: "planner_env \<Rightarrow> TreeNode \<Rightarrow> error + TreeNode" where
  "RealTransCmplxNode_BuildTree_internal env this =
     (let r2c = (inArrayType (info this) = rocfft_array_type_real) in
      bind_err (set_complex_length (info this)) (\<lambda>(n, realLength, complexLength).
        let copyHeadPlan = CreateNodeFromScheme env
              (if r2c then CS_KERNEL_COPY_R_TO_CMPLX else CS_KERNEL_COPY_HERM_TO_CMPLX) n;
            copyHeadPlan = map_info (\<lambda>i. i\<lparr>dimension := dimension n\<rparr>) copyHeadPlan;
            copyHeadPlan = map_info (\<lambda>i. i\<lparr>lengthv := lengthv n\<rparr>) copyHeadPlan;
            copyHeadPlan = (if \<not> r2c
                            then map_info (\<lambda>i. i\<lparr>outputLength := deref n realLength\<rparr>) copyHeadPlan
                            else copyHeadPlan);
            kids = childNodes this @ [copyHeadPlan];
            fftPlanData = NodeMetaData_of n;
            fftPlanData = fftPlanData\<lparr>md_dimension := dimension n\<rparr>;
            fftPlanData = fftPlanData\<lparr>md_length := deref n realLength\<rparr>;
            fftPlan = CreateExplicitNode env fftPlanData n
        in
        bind_err (RecursiveBuildTree env fftPlan) (\<lambda>fftPlan.
        bind_err (GetLastLeaf_update
                    (\<lambda>i. i\<lparr>allowedOutArrayTypes := [rocfft_array_type_complex_interleaved]\<rparr>)
                    fftPlan) (\<lambda>fftPlan.
          let kids = kids @ [fftPlan];
              copyTailPlan = CreateNodeFromScheme env
                (if r2c then CS_KERNEL_COPY_CMPLX_TO_HERM else CS_KERNEL_COPY_CMPLX_TO_R) n;
              copyTailPlan = map_info (\<lambda>i. i\<lparr>dimension := dimension n\<rparr>) copyTailPlan;
              copyTailPlan = map_info (\<lambda>i. i\<lparr>lengthv := deref n realLength\<rparr>) copyTailPlan;
              copyTailPlan = (if r2c
                              then map_info (\<lambda>i. i\<lparr>outputLength := deref n complexLength\<rparr>) copyTailPlan
                              else copyTailPlan)
          in Inr (TreeNode n (kids @ [copyTailPlan]))))))"

text \<open>
  The layout pass of the same node.  The loop over \<open>index = 1 ..< length.size()\<close> visits
  the entries of \<^verbatim>\<open>length\<close> after the first one, in order.
\<close>

definition RealTransCmplxNode_AssignParams_internal :: "planner_env \<Rightarrow> TreeNode \<Rightarrow> error + TreeNode" where
  "RealTransCmplxNode_AssignParams_internal env this =
     bind_err (assert_that (length (childNodes this) = 3)) (\<lambda>_.
       let n = info this;
           copyHeadPlan = childNodes this ! 0;
           fftPlan = childNodes this ! 1;
           copyTailPlan = childNodes this ! 2;
           copyHeadPlan = map_info (\<lambda>i. i\<lparr>inStride := inStride n, iDist := iDist n\<rparr>) copyHeadPlan;
           copyHeadPlan = map_info (\<lambda>i. i\<lparr>outStride := outStride i @ [1]\<rparr>) copyHeadPlan
       in
       bind_err (if outputLength (info copyHeadPlan) = []
                 then at_vec (lengthv (info copyHeadPlan)) 0
                 else at_vec (outputLength (info copyHeadPlan)) 0) (\<lambda>d0.
         let copyHeadPlan = map_info (\<lambda>i. i\<lparr>oDist := d0\<rparr>) copyHeadPlan;
             copyHeadPlan = map_info
               (\<lambda>i. fold (\<lambda>l h. h\<lparr>outStride := outStride h @ [oDist h], oDist := oDist h * l\<rparr>)
                         (tl (lengthv n)) i) copyHeadPlan;
             fftPlan = map_info (\<lambda>i. i\<lparr>inStride := outStride (info copyHeadPlan),
                                         iDist := oDist (info copyHeadPlan)\<rparr>) fftPlan;
             fftPlan = map_info (\<lambda>i. i\<lparr>outStride := inStride i, oDist := iDist i\<rparr>) fftPlan
         in
         bind_err (AssignParams env fftPlan) (\<lambda>fftPlan.
           let copyTailPlan = map_info (\<lambda>i. i\<lparr>inStride := outStride (info fftPlan),
                                                iDist := oDist (info fftPlan)\<rparr>) copyTailPlan;
               copyTailPlan = map_info (\<lambda>i. i\<lparr>outStride := outStride n, oDist := oDist n\<rparr>) copyTailPlan
           in Inr (TreeNode n [copyHeadPlan, fftPlan, copyTailPlan]))))"

section \<open>CS_REAL_TRANSFORM_EVEN\<close>

text \<open>
  \<^verbatim>\<open>RealTransEvenNode::BuildTree_internal\<close>.  The result is the node with the text it
  has written to \<^verbatim>\<open>std::cerr\<close>.  The bodies of \<^verbatim>\<open>case -1\<close> and \<^verbatim>\<open>case 1\<close> of the
  \<^verbatim>\<open>switch\<close> on the direction are the two definitions that come first; \<open>kids\<close> is
  \<^verbatim>\<open>childNodes\<close>, and \<open>n\<close> holds the fields of the node after \<^verbatim>\<open>set_complex_length\<close>
  and the update of \<^verbatim>\<open>try_fuse_pre_post_processing\<close>.
\<close>

definition RealTransEvenNode_case_forward ::
  "planner_env \<Rightarrow> NodeInfo \<Rightarrow> TreeNode list \<Rightarrow> LengthRef \<Rightarrow> LengthRef \<Rightarrow> TreeNode
     \<Rightarrow> error + (TreeNode \<times> string list)" where
  "RealTransEvenNode_case_forward env n kids realLength complexLength cfftPlan =
     (let applyCallback = CreateNodeFromScheme env CS_KERNEL_APPLY_CALLBACK n;
          applyCallback = map_info (\<lambda>i. i\<lparr>dimension := dimension n\<rparr>) applyCallback;
          applyCallback = map_info (\<lambda>i. i\<lparr>lengthv := deref n realLength\<rparr>) applyCallback
      in
      bind_err
        (if try_fuse_pre_post_processing n
         then (let c = map_info (\<lambda>i. i\<lparr>ebtype := Real2C_POST\<rparr>) cfftPlan;
                   c = map_info (\<lambda>i. i\<lparr>allowOutofplace := True\<rparr>) c;
                   c = map_info (\<lambda>i. i\<lparr>outputLength := lengthv i\<rparr>) c
               in bind_err (modify_vec (outputLength (info c)) 0 (\<lambda>x. x + 1))
                    (\<lambda>ol. Inr (map_info (\<lambda>i. i\<lparr>outputLength := ol\<rparr>) c)))
         else Inr cfftPlan) (\<lambda>cfftPlan.
        let kids = kids @ [applyCallback];
            kids = kids @ [cfftPlan]
        in
        if \<not> try_fuse_pre_post_processing n
        then bind_err (GetLastLeaf_update
                         (\<lambda>i. i\<lparr>allowedOutArrayTypes := [rocfft_array_type_complex_interleaved]\<rparr>)
                         (last kids)) (\<lambda>lastKid.
               let kids = butlast kids @ [lastKid];
                   postPlan = CreateNodeFromScheme env CS_KERNEL_R_TO_CMPLX n;
                   postPlan = map_info (\<lambda>i. i\<lparr>dimension := 1\<rparr>) postPlan;
                   postPlan = map_info (\<lambda>i. i\<lparr>lengthv := deref n realLength\<rparr>) postPlan
               in
               bind_err (modify_vec (lengthv (info postPlan)) 0 (\<lambda>x. x div 2)) (\<lambda>pl.
                 let postPlan = map_info (\<lambda>i. i\<lparr>lengthv := pl\<rparr>) postPlan;
                     postPlan = map_info (\<lambda>i. i\<lparr>outputLength := deref n complexLength\<rparr>) postPlan
                 in Inr (TreeNode n (kids @ [postPlan]), [])))
        else Inr (TreeNode n kids, [])))"

definition RealTransEvenNode_case_inverse ::
  "planner_env \<Rightarrow> NodeInfo \<Rightarrow> TreeNode list \<Rightarrow> LengthRef \<Rightarrow> LengthRef \<Rightarrow> TreeNode
     \<Rightarrow> error + (TreeNode \<times> string list)" where
  "RealTransEvenNode_case_inverse env n kids realLength complexLength cfftPlan =
     bind_err
       (if \<not> try_fuse_pre_post_processing n
        then (let prePlan = CreateNodeFromScheme env CS_KERNEL_CMPLX_TO_R n;
                  prePlan = map_info (\<lambda>i. i\<lparr>dimension := 1\<rparr>) prePlan;
                  prePlan = map_info (\<lambda>i. i\<lparr>lengthv := deref n complexLength\<rparr>) prePlan;
                  prePlan = map_info (\<lambda>i. i\<lparr>outputLength := outputLength n\<rparr>) prePlan
              in bind_err (modify_vec (outputLength (info prePlan)) 0 (\<lambda>x. x div 2))
                   (\<lambda>ol. Inr (kids @ [map_info (\<lambda>i. i\<lparr>outputLength := ol\<rparr>) prePlan], cfftPlan)))
        else (let c = map_info (\<lambda>i. i\<lparr>ebtype := C2Real_PRE\<rparr>) cfftPlan;
                  c = map_info (\<lambda>i. i\<lparr>allowOutofplace := True\<rparr>) c
              in Inr (kids, c))) (\<lambda>(kids, cfftPlan).
       let applyCallback = CreateNodeFromScheme env CS_KERNEL_APPLY_CALLBACK n;
           applyCallback = map_info (\<lambda>i. i\<lparr>dimension := dimension n\<rparr>) applyCallback;
           applyCallback = map_info (\<lambda>i. i\<lparr>lengthv := outputLength n\<rparr>) applyCallback;
           kids = kids @ [cfftPlan];
           kids = kids @ [applyCallback]
       in Inr (TreeNode n kids, []))"

definition RealTransEvenNode_BuildTree_internal ::
  "planner_env \<Rightarrow> TreeNode \<Rightarrow> error + (TreeNode \<times> string list)" where
  "RealTransEvenNode_BuildTree_internal env this =
     bind_err (at_vec (lengthv (info this)) 0) (\<lambda>l0.
     bind_err (assert_that (l0 mod 2 = 0)) (\<lambda>_.
     bind_err (set_complex_length (info this)) (\<lambda>(n, realLength, complexLength).
       let cfftPlanData = NodeMetaData_of n;
           cfftPlanData = cfftPlanData\<lparr>md_dimension := dimension n\<rparr>;
           cfftPlanData = cfftPlanData\<lparr>md_length := deref n realLength\<rparr>
       in
       bind_err (modify_vec (md_length cfftPlanData) 0 (\<lambda>x. x div 2)) (\<lambda>cl.
         let cfftPlanData = cfftPlanData\<lparr>md_length := cl\<rparr>;
             cfftPlan = CreateExplicitNode env cfftPlanData n;
             cfftPlan = map_info (\<lambda>i. i\<lparr>allowOutofplace := False\<rparr>) cfftPlan
         in
         bind_err (RecursiveBuildTree env cfftPlan) (\<lambda>cfftPlan.
           let n = (if try_fuse_pre_post_processing n
                    then n\<lparr>try_fuse_pre_post_processing := isLeafNode cfftPlan\<rparr>
                    else n)
           in
           if direction n = - 1
           then RealTransEvenNode_case_forward env n (childNodes this) realLength complexLength cfftPlan
           else if direction n = 1
           then RealTransEvenNode_case_inverse env n (childNodes this) realLength complexLength cfftPlan
           else Inr (TreeNode n (childNodes this),
                     [''invalid direction: plan creation failed!'' @ [CHR 0x0A]]))))))"

section \<open>Transposes\<close>

text \<open>\<^verbatim>\<open>TreeNode::SetTransposeOutputLength\<close>.\<close>

definition SetTransposeOutputLength :: "TreeNode \<Rightarrow> error + TreeNode" where
  "SetTransposeOutputLength this =
     (let n = info this in
      if scheme n = CS_KERNEL_TRANSPOSE
      then bind_err (swap_vec (lengthv n) 0 1)
             (\<lambda>ol. Inr (map_info (\<lambda>i. i\<lparr>outputLength := ol\<rparr>) this))
      else if scheme n = CS_KERNEL_TRANSPOSE_XY_Z \<or> scheme n = CS_KERNEL_STOCKHAM_TRANSPOSE_XY_Z
      then bind_err (swap_vec (lengthv n) 1 2) (\<lambda>ol.
           bind_err (swap_vec ol 0 1)
             (\<lambda>ol. Inr (map_info (\<lambda>i. i\<lparr>outputLength := ol\<rparr>) this)))
      else if scheme n = CS_KERNEL_TRANSPOSE_Z_XY \<or> scheme n = CS_KERNEL_STOCKHAM_TRANSPOSE_Z_XY
      then bind_err (swap_vec (lengthv n) 0 1) (\<lambda>ol.
           bind_err (swap_vec ol 1 2)
             (\<lambda>ol. Inr (map_info (\<lambda>i. i\<lparr>outputLength := ol\<rparr>) this)))
      else Inl (RuntimeError ''can't set transpose output length on non-transpose node''))"

section \<open>CS_REAL_2D_EVEN\<close>

text \<open>
  A child of scheme \<open>CS_REAL_TRANSFORM_EVEN\<close> is a \<^verbatim>\<open>RealTransEvenNode\<close>: its
  \<^verbatim>\<open>RecursiveBuildTree()\<close> runs \<open>RealTransEvenNode_BuildTree_internal\<close>.
\<close>

definition Real2DEvenNode_BuildTree_internal_SBCC ::
  "function_pool \<Rightarrow> planner_env \<Rightarrow> TreeNode \<Rightarrow> error + (TreeNode \<times> string list)" where
  "Real2DEvenNode_BuildTree_internal_SBCC pool env this =
     (let n = info this in
      bind_err (at_vec (lengthv n) 1) (\<lambda>l1.
        let haveSBCC = has_SBCC_kernel pool l1 (precision n);
            sbccScheme = (if haveSBCC then CS_KERNEL_STOCKHAM_BLOCK_CC else CS_KERNEL_STOCKHAM)
        in
        if inArrayType n = rocfft_array_type_real
        then (let rcplan = CreateNodeFromScheme env CS_REAL_TRANSFORM_EVEN n in
              bind_err (at_vec (lengthv n) 0) (\<lambda>l0.
                let rcplan = map_info (\<lambda>i. i\<lparr>try_fuse_pre_post_processing := (l0 \<le> 2048)\<rparr>) rcplan;
                    rcplan = map_info (\<lambda>i. i\<lparr>lengthv := lengthv n\<rparr>) rcplan;
                    rcplan = map_info (\<lambda>i. i\<lparr>dimension := 1\<rparr>) rcplan
                in
                bind_err (RealTransEvenNode_BuildTree_internal env rcplan) (\<lambda>(rcplan, cerr).
                  let kids = childNodes this @ [rcplan];
                      sbccY = CreateNodeFromScheme env sbccScheme n;
                      sbccY = map_info (\<lambda>i. i\<lparr>lengthv := outputLength (info (last kids))\<rparr>) sbccY;
                      sbccY = map_info (\<lambda>i. i\<lparr>outputLength := lengthv i\<rparr>) sbccY
                  in
                  bind_err (swap_vec (lengthv (info sbccY)) 0 1) (\<lambda>sl.
                    let sbccY = map_info (\<lambda>i. i\<lparr>lengthv := sl\<rparr>) sbccY
                    in Inr (TreeNode n (kids @ [sbccY]), cerr)))))
        else (let sbccY = CreateNodeFromScheme env sbccScheme n;
                  sbccY = map_info (\<lambda>i. i\<lparr>outputLength := lengthv n\<rparr>) sbccY;
                  sbccY = map_info (\<lambda>i. i\<lparr>lengthv := lengthv n\<rparr>) sbccY
              in
              bind_err (swap_vec (lengthv (info sbccY)) 0 1) (\<lambda>sl.
                let sbccY = map_info (\<lambda>i. i\<lparr>lengthv := sl\<rparr>) sbccY;
                    kids = childNodes this @ [sbccY];
                    crplan = CreateNodeFromScheme env CS_REAL_TRANSFORM_EVEN n
                in
                bind_err (at_vec (lengthv n) 0) (\<lambda>l0.
                  let crplan = map_info (\<lambda>i. i\<lparr>try_fuse_pre_post_processing := (l0 \<le> 2048)\<rparr>) crplan;
                      crplan = map_info (\<lambda>i. i\<lparr>lengthv := outputLength n\<rparr>) crplan;
                      crplan = map_info (\<lambda>i. i\<lparr>dimension := 1\<rparr>) crplan
                  in
                  bind_err (RealTransEvenNode_BuildTree_internal env crplan) (\<lambda>(crplan, cerr).
                    Inr (TreeNode n (kids @ [crplan]), cerr)))))))"

text \<open>
  The transpose-pair builder.  A shim is recorded with the positions its nodes take among
  the children, which are appended in the order in which the shims name them.
\<close>

definition add_shim_if_fusable ::
  "planner_env \<Rightarrow> FuseType \<Rightarrow> TreeNode list \<Rightarrow> nat list \<Rightarrow> NodeInfo \<Rightarrow> NodeInfo" where
  "add_shim_if_fusable env ft nodes places n =
     (if IsSchemeFusable env ft nodes then n\<lparr>fuseShims := fuseShims n @ [(ft, places)]\<rparr> else n)"

definition Real2DEvenNode_BuildTree_internal_TR_pair ::
  "planner_env \<Rightarrow> TreeNode \<Rightarrow> error + (TreeNode \<times> string list)" where
  "Real2DEvenNode_BuildTree_internal_TR_pair env this =
     (let n = info this; k = length (childNodes this) in
      if inArrayType n = rocfft_array_type_real
      then (let row1Plan = CreateNodeFromScheme env CS_REAL_TRANSFORM_EVEN n;
                row1Plan = map_info (\<lambda>i. i\<lparr>lengthv := lengthv n\<rparr>) row1Plan;
                row1Plan = map_info (\<lambda>i. i\<lparr>dimension := 1\<rparr>) row1Plan
            in
            bind_err (RealTransEvenNode_BuildTree_internal env row1Plan) (\<lambda>(row1Plan, cerr).
              let trans1Plan = CreateNodeFromScheme env CS_KERNEL_TRANSPOSE n;
                  trans1Plan = map_info (\<lambda>i. i\<lparr>lengthv := outputLength (info row1Plan)\<rparr>) trans1Plan
              in
              bind_err (SetTransposeOutputLength trans1Plan) (\<lambda>trans1Plan.
                let row2PlanData = NodeMetaData_of n;
                    row2PlanData = row2PlanData\<lparr>md_length := outputLength (info trans1Plan)\<rparr>;
                    row2PlanData = row2PlanData\<lparr>md_dimension := 1\<rparr>;
                    row2Plan = CreateExplicitNode env row2PlanData n
                in
                bind_err (RecursiveBuildTree env row2Plan) (\<lambda>row2Plan.
                  let trans2Plan = CreateNodeFromScheme env CS_KERNEL_TRANSPOSE n;
                      trans2Plan = map_info (\<lambda>i. i\<lparr>lengthv := outputLength (info trans1Plan)\<rparr>) trans2Plan
                  in
                  bind_err (SetTransposeOutputLength trans2Plan) (\<lambda>trans2Plan.
                    let n = (if IsSchemeFusable env FT_STOCKHAM_R2C_TRANSPOSE [row1Plan, trans1Plan]
                             then n\<lparr>fuseShims := fuseShims n @ [(FT_STOCKHAM_R2C_TRANSPOSE, [k, k + 1])]\<rparr>
                             else add_shim_if_fusable env FT_R2C_TRANSPOSE
                                    [row1Plan, trans1Plan, row2Plan] [k, k + 1, k + 2] n);
                        n = add_shim_if_fusable env FT_STOCKHAM_WITH_TRANS
                              [row2Plan, trans2Plan] [k + 2, k + 3] n;
                        kids = childNodes this @ [row1Plan];
                        kids = kids @ [trans1Plan];
                        kids = kids @ [row2Plan];
                        kids = kids @ [trans2Plan]
                    in Inr (TreeNode n kids, cerr))))))
      else (let trans1Plan = CreateNodeFromScheme env CS_KERNEL_TRANSPOSE n;
                trans1Plan = map_info (\<lambda>i. i\<lparr>lengthv := lengthv n\<rparr>) trans1Plan
            in
            bind_err (SetTransposeOutputLength trans1Plan) (\<lambda>trans1Plan.
              let trans1Plan = map_info (\<lambda>i. i\<lparr>dimension := 2\<rparr>) trans1Plan;
                  c2cPlanData = NodeMetaData_of n;
                  c2cPlanData = c2cPlanData\<lparr>md_dimension := 1\<rparr>;
                  c2cPlanData = c2cPlanData\<lparr>md_length := outputLength (info trans1Plan)\<rparr>;
                  c2cPlan = CreateExplicitNode env c2cPlanData n
              in
              bind_err (RecursiveBuildTree env c2cPlan) (\<lambda>c2cPlan.
                let trans2plan = CreateNodeFromScheme env CS_KERNEL_TRANSPOSE n;
                    trans2plan = map_info (\<lambda>i. i\<lparr>lengthv := outputLength (info trans1Plan)\<rparr>) trans2plan
                in
                bind_err (SetTransposeOutputLength trans2plan) (\<lambda>trans2plan.
                  let trans2plan = map_info (\<lambda>i. i\<lparr>dimension := 2\<rparr>) trans2plan;
                      c2rPlan = CreateNodeFromScheme env CS_REAL_TRANSFORM_EVEN n;
                      c2rPlan = map_info (\<lambda>i. i\<lparr>lengthv := outputLength n\<rparr>) c2rPlan
                  in
                  bind_err (RealTransEvenNode_BuildTree_internal env c2rPlan) (\<lambda>(c2rPlan, cerr).
                    let n = add_shim_if_fusable env FT_TRANS_WITH_STOCKHAM
                              [trans1Plan, c2cPlan] [k, k + 1] n;
                        n = add_shim_if_fusable env FT_TRANSPOSE_C2R
                              [trans2plan, c2rPlan] [k + 2, k + 3] n;
                        kids = childNodes this @ [trans1Plan];
                        kids = kids @ [c2cPlan];
                        kids = kids @ [trans2plan];
                        kids = kids @ [c2rPlan]
                    in Inr (TreeNode n kids, cerr)))))))"

definition Real2DEvenNode_BuildTree_internal ::
  "function_pool \<Rightarrow> planner_env \<Rightarrow> TreeNode \<Rightarrow> error + (TreeNode \<times> string list)" where
  "Real2DEvenNode_BuildTree_internal pool env this =
     bind_err (at_vec (lengthv (info this)) 0) (\<lambda>l0.
     bind_err (assert_that (l0 mod 2 = 0)) (\<lambda>_.
     bind_err (set_complex_length (info this)) (\<lambda>(n, realLength, complexLength).
     bind_err (SBCC_dim_available pool (lengthv n) 1 (precision n)) (\<lambda>available.
       let n = n\<lparr>solution := (if available then INPLACE_SBCC else TR_PAIR)\<rparr> in
       case solution n of
         INPLACE_SBCC \<Rightarrow> Real2DEvenNode_BuildTree_internal_SBCC pool env (TreeNode n (childNodes this))
       | TR_PAIR \<Rightarrow> Real2DEvenNode_BuildTree_internal_TR_pair env (TreeNode n (childNodes this))))))"

section \<open>Concrete plans\<close>

text \<open>
  A concrete request and a concrete planner, on which the functions above are run: the
  planner makes every explicit node a single Stockham kernel of the requested shape, and
  offers no fusion.
\<close>

definition sample_node :: NodeInfo where
  "sample_node =
     \<lparr>scheme = CS_NONE, nodeType = NT_INTERNAL, dimension = 1, batch = 1,
      lengthv = [], outputLength = [], inStride = [], outStride = [], iDist = 0, oDist = 0,
      direction = - 1, precision = rocfft_precision_single,
      inArrayType = rocfft_array_type_unset, outArrayType = rocfft_array_type_unset,
      ebtype = NONE, allowOutofplace = True, allowedOutArrayTypes = [],
      try_fuse_pre_post_processing = False, solution = TR_PAIR, comments = [],
      deviceProp = \<lparr>sharedMemPerBlock = 65536, gcnArchName = ''gfx908''\<rparr>,
      fuseShims = []\<rparr>"

definition sample_explicit_node :: "NodeType \<Rightarrow> NodeMetaData \<Rightarrow> NodeInfo \<Rightarrow> TreeNode" where
  "sample_explicit_node nt md p =
     TreeNode (sample_node\<lparr>scheme := CS_KERNEL_STOCKHAM, nodeType := nt,
                            dimension := md_dimension md, lengthv := md_length md,
                            precision := md_precision md, batch := md_batch md,
                            direction := md_direction md, deviceProp := md_deviceProp md\<rparr>) []"

definition sample_env :: "NodeType \<Rightarrow> planner_env" where
  "sample_env nt =
     \<lparr>fresh_node = sample_node, CreateExplicitNode = sample_explicit_node nt,
      RecursiveBuildTree = Inr, AssignParams = Inr, IsSchemeFusable = (\<lambda>ft nodes. False)\<rparr>"

definition sample_kernel :: "size_t \<Rightarrow> FFTKernel" where
  "sample_kernel tpb =
     \<lparr>transforms_per_block = tpb, half_lds = False, direct_to_from_reg = False, factors = [8, 8]\<rparr>"

section \<open>Leaf nodes\<close>

text \<open>
  The members of \<^verbatim>\<open>LeafNode\<close> that are read or written below, on top of those of
  \<^verbatim>\<open>TreeNode\<close>.  \<open>lds\<close> counts complex elements.
\<close>

datatype DirectRegType = FORCE_OFF_OR_NOT_SUPPORT | TRY_ENABLE_IF_SUPPORT

record LeafNode = NodeInfo +
  externalKernel :: bool
  specified_key :: "FMKey option"
  sbrcTranstype :: SBRC_TRANSPOSE_TYPE
  dir2regMode :: DirectRegType
  kernelFactors :: "size_t list"
  lds :: size_t

text \<open>
  \<^verbatim>\<open>GridParam\<close> (kernel_launch.h is absent): the launch parameters are \<^verbatim>\<open>unsigned int\<close>,
  as HIP takes them; \<open>lds_bytes\<close> is the size of the dynamic shared memory of the launch.
\<close>

record GridParam =
  b_x :: "32 word"
  wgs_x :: "32 word"
  lds_bytes :: "32 word"

text \<open>
  What a leaf takes from other parts of the library:
  \<^item> \<open>TreeNode_GetKernelKey\<close>: \<^verbatim>\<open>TreeNode::GetKernelKey()\<close>, the key of the node;
  \<^item> \<open>complex_type_size\<close>: the bytes of one complex element of a precision;
  \<^item> \<open>is_device_gcn_arch\<close>: the test of the architecture name of the device;
  \<^item> \<open>SetupGPAndFnPtr_internal\<close>: the virtual function with which a derived class sets
    its \<open>bwd\<close>, \<open>wgs\<close>, \<open>lds\<close>, the function pointer (of type \<open>'f\<close>) and the grid;
  \<^item> \<open>add_new_kernel\<close>: \<^verbatim>\<open>function_pool::add_new_kernel(key)\<close>, which extends the
    catalog;
  \<^item> \<open>TreeNode_SanityCheck\<close>: \<^verbatim>\<open>TreeNode::SanityCheck\<close>, the check of the base class,
    which is given the solution scheme (of type \<open>'s\<close>) and the remaining keys.
\<close>

record ('f, 's) leaf_env =
  TreeNode_GetKernelKey :: "LeafNode \<Rightarrow> FMKey"
  complex_type_size :: "rocfft_precision \<Rightarrow> size_t"
  is_device_gcn_arch :: "DeviceProp \<Rightarrow> string \<Rightarrow> bool"
  SetupGPAndFnPtr_internal :: "LeafNode \<Rightarrow> 'f \<Rightarrow> GridParam \<Rightarrow> LeafNode \<times> 'f \<times> GridParam"
  add_new_kernel :: "function_pool \<Rightarrow> FMKey \<Rightarrow> function_pool"
  TreeNode_SanityCheck :: "LeafNode \<Rightarrow> 's \<Rightarrow> FMKey list \<Rightarrow> error + LeafNode \<times> FMKey list"

text \<open>
  Modelled from the spec: \<^verbatim>\<open>FMKey::EmptyFMKey()\<close> (function_pool.h is absent) is the key
  that stands for "no kernel selected": a built-in kernel, or a kernel that is not tuned.
\<close>

definition EmptyFMKey :: FMKey where
  "EmptyFMKey = fpkey 0 rocfft_precision_single CS_NONE"

text \<open>\<^verbatim>\<open>LeafNode::GetKernelKey\<close>.\<close>

definition LeafNode_GetKernelKey :: "('f, 's) leaf_env \<Rightarrow> LeafNode \<Rightarrow> FMKey" where
  "LeafNode_GetKernelKey le this =
     (if \<not> externalKernel this then EmptyFMKey else TreeNode_GetKernelKey le this)"

text \<open>\<^verbatim>\<open>LeafNode::GetKernelFactors\<close>.\<close>

definition GetKernelFactors ::
  "('f, 's) leaf_env \<Rightarrow> function_pool \<Rightarrow> LeafNode \<Rightarrow> error + LeafNode" where
  "GetKernelFactors le pool this =
     (let key = LeafNode_GetKernelKey le this in
      bind_err (get_kernel pool key) (\<lambda>k. Inr (this\<lparr>kernelFactors := factors k\<rparr>)))"

section \<open>Checking a kernel selection against a leaf\<close>

text \<open>
  \<^verbatim>\<open>LeafNode::KernelCheck\<close>.  The vector of keys is passed by reference and the catalog is
  global: the result holds the answer, the node, the remaining keys and the catalog.  The
  trace output, which is written only when tracing is enabled, is left out.  The first
  definition is the comparison of the assigned key with the node, whose disjuncts are
  evaluated from left to right, \<^verbatim>\<open>length[1]\<close> only for a node of dimension 2 whose
  \<^verbatim>\<open>length[0]\<close> agrees.
\<close>

definition key_mismatch :: "LeafNode \<Rightarrow> FMKey \<Rightarrow> error + bool" where
  "key_mismatch this assignedKey =
     bind_err (at_vec (lengthv this) 0) (\<lambda>l0.
       if l0 \<noteq> lengths0 assignedKey then Inr True
       else bind_err (if dimension this = 2
                      then bind_err (at_vec (lengthv this) 1) (\<lambda>l1. Inr (l1 \<noteq> lengths1 assignedKey))
                      else Inr False) (\<lambda>second.
              Inr (second
                   \<or> precision this \<noteq> key_precision assignedKey
                   \<or> scheme this \<noteq> key_scheme assignedKey
                   \<or> ebtype this \<noteq> kernel_config_ebType assignedKey)))"

definition KernelCheck ::
  "('f, 's) leaf_env \<Rightarrow> function_pool \<Rightarrow> LeafNode \<Rightarrow> FMKey list
     \<Rightarrow> error + bool \<times> LeafNode \<times> FMKey list \<times> function_pool" where
  "KernelCheck le pool this kernel_keys =
     (if \<not> externalKernel this
      then (if kernel_keys \<noteq> []
            then (if hd kernel_keys \<noteq> EmptyFMKey
                  then Inr (False, this, kernel_keys, pool)
                  else Inr (True, this, tl kernel_keys, pool))
            else Inr (True, this, kernel_keys, pool))
      else
        (let this = this\<lparr>specified_key := None\<rparr> in
         bind_err
           (if kernel_keys \<noteq> []
            then (let assignedKey = hd kernel_keys;
                      kernel_keys = tl kernel_keys
                  in if assignedKey = EmptyFMKey
                     then Inr (None, this, kernel_keys, pool)
                     else bind_err (key_mismatch this assignedKey) (\<lambda>mismatch.
                            if mismatch
                            then Inr (Some False, this, kernel_keys, pool)
                            else Inr (None,
                                      this\<lparr>sbrcTranstype := sbrcTrans assignedKey,
                                            specified_key := Some assignedKey\<rparr>,
                                      kernel_keys, add_new_kernel le pool assignedKey)))
            else Inr (None, this, kernel_keys, pool)) (\<lambda>(returned, this, kernel_keys, pool).
           case returned of
             Some b \<Rightarrow> Inr (b, this, kernel_keys, pool)
           | None \<Rightarrow>
               (let key = LeafNode_GetKernelKey le this in
                if \<not> has_function pool key
                then Inr (False, this, kernel_keys, pool)
                else bind_err (get_kernel pool key) (\<lambda>k.
                       let this = this\<lparr>dir2regMode := (if direct_to_from_reg k
                                                          then TRY_ENABLE_IF_SUPPORT
                                                          else FORCE_OFF_OR_NOT_SUPPORT)\<rparr>
                       in bind_err (GetKernelFactors le pool this) (\<lambda>this.
                            Inr (True, this, kernel_keys, pool)))))))"

text \<open>\<^verbatim>\<open>LeafNode::SanityCheck\<close>: a failed check is a \<^verbatim>\<open>std::runtime_error\<close>.\<close>

definition LeafNode_SanityCheck ::
  "('f, 's) leaf_env \<Rightarrow> function_pool \<Rightarrow> LeafNode \<Rightarrow> 's \<Rightarrow> FMKey list
     \<Rightarrow> error + LeafNode \<times> FMKey list \<times> function_pool" where
  "LeafNode_SanityCheck le pool this solution_scheme kernels_keys =
     bind_err (KernelCheck le pool this kernels_keys) (\<lambda>(ok, this, kernels_keys, pool).
       if \<not> ok
       then Inl (RuntimeError ''Kernel not found or mismatches node (solution map issue)'')
       else bind_err (TreeNode_SanityCheck le this solution_scheme kernels_keys)
              (\<lambda>(this, kernels_keys). Inr (this, kernels_keys, pool)))"

text \<open>
  Modelled from the spec: the caller of \<^verbatim>\<open>SanityCheck\<close> in plan construction (plan.cpp
  is absent), which receives the error of a failed kernel check.  A catalog/plan mismatch
  is "treated as a recoverable validation failure": "the caller falls back to default
  kernel selection rather than aborting the whole plan, unless no fallback kernel exists
  either, in which case it is fatal" ("kernel mismatch \<rightarrow> retry with default kernel").
  When the check of a supplied selection fails with that error, the check is made again
  on the node with no key supplied and the default solution scheme; the outcome of the
  second check is final.
\<close>

definition SanityCheck_with_fallback ::
  "('f, 's) leaf_env \<Rightarrow> function_pool \<Rightarrow> LeafNode \<Rightarrow> 's \<Rightarrow> FMKey list \<Rightarrow> 's
     \<Rightarrow> error + LeafNode \<times> FMKey list \<times> function_pool" where
  "SanityCheck_with_fallback le pool this solution_scheme kernel_keys default_scheme =
     (case LeafNode_SanityCheck le pool this solution_scheme kernel_keys of
        Inr r \<Rightarrow> Inr r
      | Inl e \<Rightarrow>
          if e = RuntimeError ''Kernel not found or mismatches node (solution map issue)''
               \<and> kernel_keys \<noteq> []
          then LeafNode_SanityCheck le pool this default_scheme []
          else Inl e)"

section \<open>Grid parameters of a leaf\<close>



text \<open>A concrete leaf, its environment and the key the base class gives it.\<close>

definition sample_leaf :: LeafNode where
  "sample_leaf =
     NodeInfo.extend
       (sample_node\<lparr>scheme := CS_KERNEL_STOCKHAM, nodeType := NT_LEAF, lengthv := [64]\<rparr>)
       (LeafNode.fields True None SBRC_NONE FORCE_OFF_OR_NOT_SUPPORT [] 64)"

definition sample_GetKernelKey :: "LeafNode \<Rightarrow> FMKey" where
  "sample_GetKernelKey this =
     (case specified_key this of
        Some k \<Rightarrow> k
      | None \<Rightarrow> fpkey (hd (lengthv this)) (precision this) (scheme this))"

definition sample_leaf_env :: "(unit, unit) leaf_env" where
  "sample_leaf_env =
     \<lparr>TreeNode_GetKernelKey = sample_GetKernelKey,
      complex_type_size = (\<lambda>p. if p = rocfft_precision_single then 8 else 16),
      is_device_gcn_arch = (\<lambda>d a. gcnArchName d = a),
      SetupGPAndFnPtr_internal = (\<lambda>this fnPtr gp. (this, fnPtr, gp)),
      add_new_kernel = (\<lambda>pool key. pool(key \<mapsto> sample_kernel 1)),
      TreeNode_SanityCheck = (\<lambda>this sol keys. Inr (this, keys))\<rparr>"

section \<open>Collapsing contiguous dimensions into the batch\<close>

text \<open>\<^verbatim>\<open>std::to_string\<close> of an unsigned number: its decimal digits.\<close>

function to_string :: "nat \<Rightarrow> string" where
  "to_string n =
     (if n < 10 then [char_of (48 + n)] else to_string (n div 10) @ [char_of (48 + n mod 10)])"
  by pat_completeness auto
termination
  by (relation "measure (\<lambda>n. n)") auto

text \<open>
  Modelled from the spec: \<^verbatim>\<open>GetOutputLength()\<close> (tree_node.h is absent): \<open>outputLength\<close>
  may differ from \<open>length\<close>; a node on which it has not been set (it is empty) puts out
  what it takes in.
\<close>

definition GetOutputLength :: "NodeInfo \<Rightarrow> size_t list" where
  "GetOutputLength n = (if outputLength n = [] then lengthv n else outputLength n)"

text \<open>\<^verbatim>\<open>v.erase(v.begin() + i)\<close>, defined for \<open>i < v.size()\<close>.\<close>

definition erase_at :: "'a list \<Rightarrow> nat \<Rightarrow> error + 'a list" where
  "erase_at v i = (if i < length v then Inr (take i v @ drop (Suc i) v) else Inl OutOfRange)"

text \<open>
  The lambda \<^verbatim>\<open>collectCollapse\<close>: its loop runs through the collapsible dimensions from
  the last one to the first one and stops at the first one that is not contiguous with
  what has been collected.  The state of the loop is \<open>curStride\<close>, \<open>dimsToCollapse\<close> and
  \<open>newBatch\<close>.  A remainder or quotient by a stride 0 is undefined.
\<close>

fun collect_loop ::
  "size_t list \<Rightarrow> size_t list \<Rightarrow> nat list \<Rightarrow> size_t \<Rightarrow> nat list \<Rightarrow> size_t
     \<Rightarrow> error + nat list \<times> size_t" where
  "collect_loop len stride [] curStride dimsToCollapse newBatch = Inr (dimsToCollapse, newBatch)"
| "collect_loop len stride (i # rest) curStride dimsToCollapse newBatch =
     bind_err (at_vec stride i) (\<lambda>s.
       if s = 0 then Inl DivisionByZero
       else if curStride mod s \<noteq> 0 then Inr (dimsToCollapse, newBatch)
       else bind_err (at_vec len i) (\<lambda>l.
              if curStride div s \<noteq> l then Inr (dimsToCollapse, newBatch)
              else collect_loop len stride rest s (dimsToCollapse @ [i]) (newBatch * l)))"

definition collectCollapse ::
  "nat list \<Rightarrow> size_t \<Rightarrow> size_t \<Rightarrow> size_t list \<Rightarrow> size_t list \<Rightarrow> error + nat list \<times> size_t" where
  "collectCollapse collapsibleDims dist newBatch len stride =
     collect_loop len stride (rev collapsibleDims) dist [] newBatch"

text \<open>The lambda \<^verbatim>\<open>doCollapse\<close>; its result is the new distance, length and stride.\<close>

fun doCollapse ::
  "size_t \<Rightarrow> nat list \<Rightarrow> size_t list \<Rightarrow> size_t list
     \<Rightarrow> error + size_t \<times> size_t list \<times> size_t list" where
  "doCollapse dist [] lengthToCollapse strideToCollapse =
     Inr (dist, lengthToCollapse, strideToCollapse)"
| "doCollapse dist (i # rest) lengthToCollapse strideToCollapse =
     bind_err (at_vec lengthToCollapse i) (\<lambda>l.
       if l = 0 then Inl DivisionByZero
       else bind_err (erase_at lengthToCollapse i) (\<lambda>len'.
            bind_err (erase_at strideToCollapse i) (\<lambda>stride'.
              doCollapse (dist div l) rest len' stride')))"

text \<open>
  The body of \<^verbatim>\<open>TreeNode::CollapseContiguousDims\<close> after the children have been
  collapsed; \<open>collapsibleDims\<close> is what the virtual function \<^verbatim>\<open>CollapsibleDims()\<close>
  answers for the node.  The comment names the collapsed lengths, which the collecting
  loop has read before.
\<close>

definition collapse_comment :: "size_t list \<Rightarrow> nat list \<Rightarrow> string" where
  "collapse_comment len dims =
     ''collapsed contiguous high length(s)''
       @ concat (map (\<lambda>i. '' '' @ to_string (unat (len ! i))) (rev dims))
       @ '' into batch''"

definition CollapseContiguousDims_node :: "nat list \<Rightarrow> NodeInfo \<Rightarrow> error + NodeInfo" where
  "CollapseContiguousDims_node collapsibleDims n =
     (if collapsibleDims = [] then Inr n
      else
        bind_err (collectCollapse collapsibleDims (iDist n) (batch n) (lengthv n) (inStride n))
          (\<lambda>(inputDimsToCollapse, newInputBatch).
        let outputLengthTemp = GetOutputLength n in
        bind_err (collectCollapse collapsibleDims (oDist n) (batch n) outputLengthTemp (outStride n))
          (\<lambda>(outputDimsToCollapse, newOutputBatch).
        if inputDimsToCollapse \<noteq> outputDimsToCollapse \<or> newInputBatch \<noteq> newOutputBatch
        then Inr n
        else
          (let n = (if inputDimsToCollapse \<noteq> []
                    then n\<lparr>comments := comments n
                                @ [collapse_comment (lengthv n) inputDimsToCollapse]\<rparr>
                    else n)
           in
           bind_err (doCollapse (iDist n) inputDimsToCollapse (lengthv n) (inStride n))
             (\<lambda>(d, l, s).
           let n = n\<lparr>iDist := d, lengthv := l, inStride := s\<rparr> in
           bind_err (doCollapse (oDist n) outputDimsToCollapse outputLengthTemp (outStride n))
             (\<lambda>(d, outputLengthTemp, s).
           let n = n\<lparr>oDist := d, outStride := s\<rparr>;
               n = n\<lparr>batch := newInputBatch\<rparr>
           in Inr (if outputLength n \<noteq> [] then n\<lparr>outputLength := outputLengthTemp\<rparr> else n)))))))"

text \<open>The calls on the children, in order; the first failure ends them.\<close>

fun sequence_err :: "(error + 'a) list \<Rightarrow> error + 'a list" where
  "sequence_err [] = Inr []"
| "sequence_err (m # ms) =
     bind_err m (\<lambda>x. bind_err (sequence_err ms) (\<lambda>xs. Inr (x # xs)))"

text \<open>
  \<^verbatim>\<open>TreeNode::CollapseContiguousDims\<close>: the children first, then the node itself.  The
  virtual function \<^verbatim>\<open>CollapsibleDims()\<close> of the node classes is the parameter
  \<open>CollapsibleDims\<close>.
\<close>

fun CollapseContiguousDims :: "(TreeNode \<Rightarrow> nat list) \<Rightarrow> TreeNode \<Rightarrow> error + TreeNode" where
  "CollapseContiguousDims CollapsibleDims (TreeNode n cs) =
     bind_err (sequence_err (map (CollapseContiguousDims CollapsibleDims) cs)) (\<lambda>cs'.
     bind_err (CollapseContiguousDims_node (CollapsibleDims (TreeNode n cs')) n) (\<lambda>n'.
       Inr (TreeNode n' cs')))"

text \<open>
  Contiguity of the dimensions \<open>dims\<close>, in the order in which they are collected: the
  distance is stride times length of the first one, whose stride is stride times length of
  the next one, and so on, as numbers (nothing wraps around).
\<close>

fun contiguous_chain :: "size_t \<Rightarrow> size_t list \<Rightarrow> size_t list \<Rightarrow> nat list \<Rightarrow> bool" where
  "contiguous_chain dist len stride [] = True"
| "contiguous_chain dist len stride (i # rest) =
     (i < length len \<and> i < length stride
      \<and> unat dist = unat (stride ! i) * unat (len ! i)
      \<and> contiguous_chain (stride ! i) len stride rest)"

text \<open>The number of elements of the transform of a node, as a number: batch times all lengths.\<close>

definition element_count :: "NodeInfo \<Rightarrow> nat" where
  "element_count n = unat (batch n) * prod_list (map unat (lengthv n))"

section \<open>Hermitian packing along the fastest dimension\<close>

lemma set_complex_length_forward:
  "lengthv node = L # ls \<Longrightarrow> direction node = - 1 \<Longrightarrow>
   set_complex_length node =
     Inr (node\<lparr>outputLength := (L div 2 + 1) # ls\<rparr>, RefLength, RefOutputLength)"
  by (simp add: set_complex_length_def)

lemma set_complex_length_inverse:
  "lengthv node = L # ls \<Longrightarrow> direction node \<noteq> - 1 \<Longrightarrow>
   set_complex_length node =
     Inr (node\<lparr>lengthv := (L div 2 + 1) # ls, outputLength := L # ls\<rparr>,
          RefOutputLength, RefLength)"
  by (simp add: set_complex_length_def)

lemma unat_half_plus_one: "unat ((L :: size_t) div 2 + 1) = unat L div 2 + 1"
proof -
  have "unat L < 2 ^ 64"
    using unsigned_less [of L] by simp
  then have "unat L div 2 + 1 < 2 ^ 64"
    by simp
  then show ?thesis
    by (simp add: unat_word_ariths unat_div)
qed

text \<open>
  C2.  A node whose length vector (in real units) is \<open>L # ls\<close> gets the complex extents
  \<open>(L div 2 + 1) # ls\<close>, and the 64-bit arithmetic does not wrap: the fastest complex extent
  is the number \<open>\<lfloor>L/2\<rfloor> + 1\<close>.  For a forward transform (direction -1) \<open>length\<close> is left
  alone and \<open>outputLength\<close> holds the complex extents; for an inverse transform
  (direction 1) the two vectors are swapped, so that \<open>length\<close> holds the complex
  (Hermitian-packed) extents and \<open>outputLength\<close> the real ones.  In both cases the returned
  references are to the real and to the complex vector, in this order.
\<close>

theorem set_complex_length_hermitian:
  assumes "lengthv node = L # ls"
  shows "unat (L div 2 + 1) = unat L div 2 + 1
       \<and> (direction node = - 1 \<longrightarrow>
            set_complex_length node =
              Inr (node\<lparr>outputLength := (L div 2 + 1) # ls\<rparr>, RefLength, RefOutputLength))
       \<and> (direction node = 1 \<longrightarrow>
            set_complex_length node =
              Inr (node\<lparr>lengthv := (L div 2 + 1) # ls, outputLength := L # ls\<rparr>,
                   RefOutputLength, RefLength))"
  using assms
  by (simp add: unat_half_plus_one set_complex_length_forward set_complex_length_inverse)

theorem set_complex_length_hermitian_witness:
  "lengthv (sample_node\<lparr>lengthv := [1024, 64]\<rparr>) = [1024, 64]
   \<and> direction (sample_node\<lparr>lengthv := [1024, 64]\<rparr>) = - 1
   \<and> set_complex_length (sample_node\<lparr>lengthv := [1024, 64]\<rparr>)
       = Inr (sample_node\<lparr>lengthv := [1024, 64], outputLength := [513, 64]\<rparr>,
              RefLength, RefOutputLength)
   \<and> lengthv (sample_node\<lparr>lengthv := [1024, 64], direction := 1\<rparr>) = [1024, 64]
   \<and> direction (sample_node\<lparr>lengthv := [1024, 64], direction := 1\<rparr>) = 1
   \<and> set_complex_length (sample_node\<lparr>lengthv := [1024, 64], direction := 1\<rparr>)
       = Inr (sample_node\<lparr>lengthv := [513, 64], direction := 1, outputLength := [1024, 64]\<rparr>,
              RefOutputLength, RefLength)"
  using set_complex_length_hermitian [of "sample_node\<lparr>lengthv := [1024, 64]\<rparr>" 1024 "[64]"]
        set_complex_length_hermitian [of "sample_node\<lparr>lengthv := [1024, 64], direction := 1\<rparr>" 1024 "[64]"]
  by (simp add: sample_node_def)

section \<open>The availability check\<close>

text \<open>
  C5.  Let the dimension index be inside the length vector.  When the catalog has a
  purpose-built block-CC kernel for that dimension's length, the check answers true,
  whatever that kernel's transforms-per-block.  When it has none and the generic kernel
  \<open>k\<close> for that length does fewer transforms per block than the minimum number of rows
  (8 in single precision, 4 in double precision), the check answers false; and it answers
  false when the catalog has no kernel at all for that length.
\<close>

theorem SBCC_dim_available_cases:
  assumes "sbcc_dim < length len"
  shows "(has_function pool (fpkey (len ! sbcc_dim) prec CS_KERNEL_STOCKHAM_BLOCK_CC)
            \<longrightarrow> SBCC_dim_available pool len sbcc_dim prec = Inr True)
       \<and> (\<not> has_function pool (fpkey (len ! sbcc_dim) prec CS_KERNEL_STOCKHAM_BLOCK_CC)
            \<and> pool (fpkey (len ! sbcc_dim) prec CS_KERNEL_STOCKHAM) = Some k
            \<and> (prec = rocfft_precision_single \<and> transforms_per_block k < 8
                 \<or> prec = rocfft_precision_double \<and> transforms_per_block k < 4)
            \<longrightarrow> SBCC_dim_available pool len sbcc_dim prec = Inr False)
       \<and> (\<not> has_function pool (fpkey (len ! sbcc_dim) prec CS_KERNEL_STOCKHAM_BLOCK_CC)
            \<and> \<not> has_function pool (fpkey (len ! sbcc_dim) prec CS_KERNEL_STOCKHAM)
            \<longrightarrow> SBCC_dim_available pool len sbcc_dim prec = Inr False)"
proof -
  from assms have zero: "0 < length len"
    by (cases len) simp_all
  have at: "at_vec len sbcc_dim = Inr (len ! sbcc_dim)" "at_vec len 0 = Inr (len ! 0)"
    using assms zero by (simp_all add: at_vec_def)
  show ?thesis
    by (auto simp: SBCC_dim_available_def at bind_err_def has_function_def get_kernel_def)
qed

theorem SBCC_dim_available_cases_witness:
  "(1::nat) < length [64, 64 :: size_t]
   \<and> has_function (Map.empty(fpkey 64 rocfft_precision_single CS_KERNEL_STOCKHAM_BLOCK_CC \<mapsto> sample_kernel 1))
        (fpkey 64 rocfft_precision_single CS_KERNEL_STOCKHAM_BLOCK_CC)
   \<and> SBCC_dim_available
        (Map.empty(fpkey 64 rocfft_precision_single CS_KERNEL_STOCKHAM_BLOCK_CC \<mapsto> sample_kernel 1))
        [64, 64] 1 rocfft_precision_single = Inr True
   \<and> transforms_per_block (sample_kernel 7) < 8
   \<and> SBCC_dim_available
        (Map.empty(fpkey 64 rocfft_precision_single CS_KERNEL_STOCKHAM \<mapsto> sample_kernel 7))
        [64, 64] 1 rocfft_precision_single = Inr False
   \<and> transforms_per_block (sample_kernel 3) < 4
   \<and> SBCC_dim_available
        (Map.empty(fpkey 64 rocfft_precision_double CS_KERNEL_STOCKHAM \<mapsto> sample_kernel 3))
        [64, 64] 1 rocfft_precision_double = Inr False
   \<and> \<not> has_function Map.empty (fpkey 64 rocfft_precision_double CS_KERNEL_STOCKHAM)
   \<and> SBCC_dim_available Map.empty [64, 64] 1 rocfft_precision_double = Inr False"
  using SBCC_dim_available_cases
          [of 1 "[64, 64]"
              "Map.empty(fpkey 64 rocfft_precision_single CS_KERNEL_STOCKHAM_BLOCK_CC \<mapsto> sample_kernel 1)"
              rocfft_precision_single]
        SBCC_dim_available_cases
          [of 1 "[64, 64]"
              "Map.empty(fpkey 64 rocfft_precision_single CS_KERNEL_STOCKHAM \<mapsto> sample_kernel 7)"
              rocfft_precision_single "sample_kernel 7"]
        SBCC_dim_available_cases
          [of 1 "[64, 64]"
              "Map.empty(fpkey 64 rocfft_precision_double CS_KERNEL_STOCKHAM \<mapsto> sample_kernel 3)"
              rocfft_precision_double "sample_kernel 3"]
        SBCC_dim_available_cases [of 1 "[64, 64]" Map.empty rocfft_precision_double]
  by (simp add: has_function_def fpkey_def sample_kernel_def)

section \<open>Fallible steps\<close>

lemma bind_err_Inr_iff: "bind_err m f = Inr y \<longleftrightarrow> (\<exists>x. m = Inr x \<and> f x = Inr y)"
  by (cases m) (simp_all add: bind_err_def)

lemma info_map_info [simp]: "info (map_info f t) = f (info t)"
  by (simp add: map_info_def)

lemma childNodes_map_info [simp]: "childNodes (map_info f t) = childNodes t"
  by (simp add: map_info_def)

lemma CreateNodeFromScheme_simps [simp]:
  "scheme (info (CreateNodeFromScheme env s p)) = s"
  "childNodes (CreateNodeFromScheme env s p) = []"
  by (simp_all add: CreateNodeFromScheme_def)

section \<open>The children of an even-length real transform\<close>

lemma set_complex_length_Inr:
  assumes "set_complex_length node = Inr (n, rl, cl)"
  shows "\<exists>L ls. lengthv node = L # ls
       \<and> deref n rl = L # ls \<and> deref n cl = (L div 2 + 1) # ls
       \<and> (direction node = - 1 \<longrightarrow>
            n = node\<lparr>outputLength := (L div 2 + 1) # ls\<rparr> \<and> rl = RefLength \<and> cl = RefOutputLength)
       \<and> (direction node \<noteq> - 1 \<longrightarrow>
            n = node\<lparr>lengthv := (L div 2 + 1) # ls, outputLength := L # ls\<rparr>
            \<and> rl = RefOutputLength \<and> cl = RefLength)"
  using assms
  by (cases "lengthv node") (auto simp: set_complex_length_def Let_def split: if_splits)

lemma set_complex_length_keeps:
  assumes "set_complex_length node = Inr (n, rl, cl)"
  shows "direction n = direction node"
    and "try_fuse_pre_post_processing n = try_fuse_pre_post_processing node"
    and "inArrayType n = inArrayType node"
    and "precision n = precision node"
    and "dimension n = dimension node"
    and "scheme n = scheme node"
  using set_complex_length_Inr [OF assms] by (cases "direction node = - 1"; auto)+

lemma case_forward_shape:
  assumes "RealTransEvenNode_case_forward env n [] rl cl cfft = Inr (t, cerr)"
  shows "info t = n \<and> cerr = []
       \<and> (try_fuse_pre_post_processing n \<longrightarrow>
            (\<exists>cb k. childNodes t = [cb, k]
               \<and> scheme (info cb) = CS_KERNEL_APPLY_CALLBACK \<and> lengthv (info cb) = deref n rl
               \<and> childNodes cb = []
               \<and> ebtype (info k) = Real2C_POST \<and> scheme (info k) = scheme (info cfft)
               \<and> nodeType (info k) = nodeType (info cfft) \<and> childNodes k = childNodes cfft))
       \<and> (\<not> try_fuse_pre_post_processing n \<longrightarrow>
            (\<exists>cb k post. childNodes t = [cb, k, post]
               \<and> scheme (info cb) = CS_KERNEL_APPLY_CALLBACK \<and> lengthv (info cb) = deref n rl
               \<and> childNodes cb = []
               \<and> GetLastLeaf_update
                    (\<lambda>i. i\<lparr>allowedOutArrayTypes := [rocfft_array_type_complex_interleaved]\<rparr>) cfft = Inr k
               \<and> scheme (info post) = CS_KERNEL_R_TO_CMPLX \<and> childNodes post = []
               \<and> outputLength (info post) = deref n cl))"
  using assms
  by (auto simp: RealTransEvenNode_case_forward_def bind_err_Inr_iff Let_def modify_vec_def
           split: if_splits)

lemma case_inverse_shape:
  assumes "RealTransEvenNode_case_inverse env n [] rl cl cfft = Inr (t, cerr)"
  shows "info t = n \<and> cerr = []
       \<and> (try_fuse_pre_post_processing n \<longrightarrow>
            (\<exists>k cb. childNodes t = [k, cb]
               \<and> scheme (info cb) = CS_KERNEL_APPLY_CALLBACK \<and> lengthv (info cb) = outputLength n
               \<and> childNodes cb = []
               \<and> ebtype (info k) = C2Real_PRE \<and> scheme (info k) = scheme (info cfft)
               \<and> nodeType (info k) = nodeType (info cfft) \<and> childNodes k = childNodes cfft))
       \<and> (\<not> try_fuse_pre_post_processing n \<longrightarrow>
            (\<exists>pre cb. childNodes t = [pre, cfft, cb]
               \<and> scheme (info cb) = CS_KERNEL_APPLY_CALLBACK \<and> lengthv (info cb) = outputLength n
               \<and> childNodes cb = []
               \<and> scheme (info pre) = CS_KERNEL_CMPLX_TO_R \<and> childNodes pre = []
               \<and> lengthv (info pre) = deref n cl))"
  using assms
  by (auto simp: RealTransEvenNode_case_inverse_def bind_err_Inr_iff Let_def modify_vec_def
           split: if_splits)

lemma BuildTree_internal_steps:
  assumes "RealTransEvenNode_BuildTree_internal env this = Inr (t, cerr)"
  shows "\<exists>n0 rl cl cfft n.
           set_complex_length (info this) = Inr (n0, rl, cl)
         \<and> RecursiveBuildTree env
              (map_info (\<lambda>i. i\<lparr>allowOutofplace := False\<rparr>)
                 (CreateExplicitNode env
                    ((NodeMetaData_of n0)\<lparr>md_dimension := dimension n0,
                                            md_length := (deref n0 rl)[0 := deref n0 rl ! 0 div 2]\<rparr>) n0))
             = Inr cfft
         \<and> n = (if try_fuse_pre_post_processing n0
                 then n0\<lparr>try_fuse_pre_post_processing := isLeafNode cfft\<rparr> else n0)
         \<and> (direction n = - 1 \<longrightarrow>
               RealTransEvenNode_case_forward env n (childNodes this) rl cl cfft = Inr (t, cerr))
         \<and> (direction n = 1 \<longrightarrow>
               RealTransEvenNode_case_inverse env n (childNodes this) rl cl cfft = Inr (t, cerr))
         \<and> (direction n \<noteq> - 1 \<and> direction n \<noteq> 1 \<longrightarrow>
               t = TreeNode n (childNodes this)
             \<and> cerr = [''invalid direction: plan creation failed!'' @ [CHR 0x0A]])"
  using assms
  by (auto simp: RealTransEvenNode_BuildTree_internal_def bind_err_Inr_iff Let_def modify_vec_def
           split: if_splits)

text \<open>
  The complex sub-plan of a node: the explicit node of the shape of the real lengths with
  the fastest extent halved, forced in place, and built.
\<close>

lemma even_node_children:
  assumes kids: "childNodes this = []"
      and dir: "direction (info this) = - 1 \<or> direction (info this) = 1"
      and build: "RealTransEvenNode_BuildTree_internal env this = Inr (t, cerr)"
  shows "\<exists>md n0 cfft.
           RecursiveBuildTree env
             (map_info (\<lambda>i. i\<lparr>allowOutofplace := False\<rparr>) (CreateExplicitNode env md n0)) = Inr cfft
         \<and> md_length md = (lengthv (info this))[0 := lengthv (info this) ! 0 div 2]
         \<and> try_fuse_pre_post_processing (info t)
             = (try_fuse_pre_post_processing (info this) \<and> isLeafNode cfft)
         \<and> (try_fuse_pre_post_processing (info t) \<and> direction (info this) = - 1 \<longrightarrow>
              (\<exists>cb k. childNodes t = [cb, k]
                 \<and> scheme (info cb) = CS_KERNEL_APPLY_CALLBACK \<and> childNodes cb = []
                 \<and> ebtype (info k) = Real2C_POST \<and> scheme (info k) = scheme (info cfft)
                 \<and> isLeafNode k \<and> childNodes k = childNodes cfft))
         \<and> (try_fuse_pre_post_processing (info t) \<and> direction (info this) = 1 \<longrightarrow>
              (\<exists>k cb. childNodes t = [k, cb]
                 \<and> scheme (info cb) = CS_KERNEL_APPLY_CALLBACK \<and> childNodes cb = []
                 \<and> ebtype (info k) = C2Real_PRE \<and> scheme (info k) = scheme (info cfft)
                 \<and> isLeafNode k \<and> childNodes k = childNodes cfft))
         \<and> (\<not> try_fuse_pre_post_processing (info t) \<and> direction (info this) = - 1 \<longrightarrow>
              (\<exists>cb k post. childNodes t = [cb, k, post]
                 \<and> scheme (info cb) = CS_KERNEL_APPLY_CALLBACK \<and> childNodes cb = []
                 \<and> GetLastLeaf_update
                      (\<lambda>i. i\<lparr>allowedOutArrayTypes := [rocfft_array_type_complex_interleaved]\<rparr>) cfft
                     = Inr k
                 \<and> scheme (info post) = CS_KERNEL_R_TO_CMPLX \<and> childNodes post = []))
         \<and> (\<not> try_fuse_pre_post_processing (info t) \<and> direction (info this) = 1 \<longrightarrow>
              (\<exists>pre cb. childNodes t = [pre, cfft, cb]
                 \<and> scheme (info pre) = CS_KERNEL_CMPLX_TO_R \<and> childNodes pre = []
                 \<and> scheme (info cb) = CS_KERNEL_APPLY_CALLBACK \<and> childNodes cb = []))"
proof -
  from BuildTree_internal_steps [OF build] obtain n0 rl cl cfft n where
    scl: "set_complex_length (info this) = Inr (n0, rl, cl)"
    and sub: "RecursiveBuildTree env
              (map_info (\<lambda>i. i\<lparr>allowOutofplace := False\<rparr>)
                 (CreateExplicitNode env
                    ((NodeMetaData_of n0)\<lparr>md_dimension := dimension n0,
                                            md_length := (deref n0 rl)[0 := deref n0 rl ! 0 div 2]\<rparr>) n0))
             = Inr cfft"
    and n: "n = (if try_fuse_pre_post_processing n0
                 then n0\<lparr>try_fuse_pre_post_processing := isLeafNode cfft\<rparr> else n0)"
    and fwd: "direction n = - 1 \<longrightarrow>
               RealTransEvenNode_case_forward env n (childNodes this) rl cl cfft = Inr (t, cerr)"
    and inv: "direction n = 1 \<longrightarrow>
               RealTransEvenNode_case_inverse env n (childNodes this) rl cl cfft = Inr (t, cerr)"
    by blast
  from set_complex_length_Inr [OF scl] have real: "deref n0 rl = lengthv (info this)"
    by auto
  have dn: "direction n = direction (info this)"
    using n set_complex_length_keeps(1) [OF scl] by (simp split: if_splits)
  have fn: "try_fuse_pre_post_processing n
              = (try_fuse_pre_post_processing (info this) \<and> isLeafNode cfft)"
    using n set_complex_length_keeps(2) [OF scl] by (simp split: if_splits)
  let ?md = "(NodeMetaData_of n0)\<lparr>md_dimension := dimension n0,
                md_length := (deref n0 rl)[0 := deref n0 rl ! 0 div 2]\<rparr>"
  have mdl: "md_length ?md = (lengthv (info this))[0 := lengthv (info this) ! 0 div 2]"
    by (simp add: real)
  from dir show ?thesis
  proof
    assume d: "direction (info this) = - 1"
    with fwd dn kids have "RealTransEvenNode_case_forward env n [] rl cl cfft = Inr (t, cerr)"
      by simp
    from case_forward_shape [OF this] d fn sub mdl show ?thesis
      by (intro exI [of _ ?md] exI [of _ n0] exI [of _ cfft]) (auto simp: isLeafNode_def)
  next
    assume d: "direction (info this) = 1"
    with inv dn kids have "RealTransEvenNode_case_inverse env n [] rl cl cfft = Inr (t, cerr)"
      by simp
    from case_inverse_shape [OF this] d fn sub mdl show ?thesis
      by (intro exI [of _ ?md] exI [of _ n0] exI [of _ cfft]) (auto simp: isLeafNode_def)
  qed
qed

section \<open>The column-block strategy of a 2-D node\<close>

lemma SBCC_children_explicit:
  assumes kids: "childNodes p = []"
      and build: "Real2DEvenNode_BuildTree_internal_SBCC pool env p = Inr (t, cerr)"
  shows "\<exists>c col.
           RealTransEvenNode_BuildTree_internal env
             (map_info (\<lambda>i. i\<lparr>dimension := 1\<rparr>)
               (map_info (\<lambda>i. i\<lparr>lengthv := (if inArrayType (info p) = rocfft_array_type_real
                                               then lengthv (info p) else outputLength (info p))\<rparr>)
                 (map_info (\<lambda>i. i\<lparr>try_fuse_pre_post_processing := (lengthv (info p) ! 0 \<le> 2048)\<rparr>)
                   (CreateNodeFromScheme env CS_REAL_TRANSFORM_EVEN (info p))))) = Inr (c, cerr)
         \<and> info t = info p
         \<and> childNodes col = [] \<and> 1 < length (lengthv (info p))
         \<and> scheme (info col)
             = (if has_SBCC_kernel pool (lengthv (info p) ! 1) (precision (info p))
                then CS_KERNEL_STOCKHAM_BLOCK_CC else CS_KERNEL_STOCKHAM)
         \<and> (inArrayType (info p) = rocfft_array_type_real \<longrightarrow>
              childNodes t = [c, col]
              \<and> lengthv (info col) = (outputLength (info c))
                     [0 := outputLength (info c) ! 1, 1 := outputLength (info c) ! 0])
         \<and> (inArrayType (info p) \<noteq> rocfft_array_type_real \<longrightarrow>
              childNodes t = [col, c]
              \<and> lengthv (info col) = (lengthv (info p))
                     [0 := lengthv (info p) ! 1, 1 := lengthv (info p) ! 0])"
  using assms
  by (auto simp: Real2DEvenNode_BuildTree_internal_SBCC_def bind_err_Inr_iff Let_def at_vec_def
                 swap_vec_def
           split: if_splits)

lemma SBCC_children:
  assumes kids: "childNodes p = []"
      and build: "Real2DEvenNode_BuildTree_internal_SBCC pool env p = Inr (t, cerr)"
  shows "\<exists>rc c col.
           childNodes rc = [] \<and> scheme (info rc) = CS_REAL_TRANSFORM_EVEN
         \<and> dimension (info rc) = 1
         \<and> try_fuse_pre_post_processing (info rc) = (lengthv (info p) ! 0 \<le> 2048)
         \<and> RealTransEvenNode_BuildTree_internal env rc = Inr (c, cerr)
         \<and> info t = info p
         \<and> childNodes col = [] \<and> 1 < length (lengthv (info p))
         \<and> scheme (info col)
             = (if has_SBCC_kernel pool (lengthv (info p) ! 1) (precision (info p))
                then CS_KERNEL_STOCKHAM_BLOCK_CC else CS_KERNEL_STOCKHAM)
         \<and> (inArrayType (info p) = rocfft_array_type_real \<longrightarrow>
              childNodes t = [c, col] \<and> lengthv (info rc) = lengthv (info p)
              \<and> lengthv (info col) = (outputLength (info c))
                     [0 := outputLength (info c) ! 1, 1 := outputLength (info c) ! 0])
         \<and> (inArrayType (info p) \<noteq> rocfft_array_type_real \<longrightarrow>
              childNodes t = [col, c] \<and> lengthv (info rc) = outputLength (info p)
              \<and> lengthv (info col) = (lengthv (info p))
                     [0 := lengthv (info p) ! 1, 1 := lengthv (info p) ! 0])"
proof -
  let ?rc = "map_info (\<lambda>i. i\<lparr>dimension := 1\<rparr>)
               (map_info (\<lambda>i. i\<lparr>lengthv := (if inArrayType (info p) = rocfft_array_type_real
                                               then lengthv (info p) else outputLength (info p))\<rparr>)
                 (map_info (\<lambda>i. i\<lparr>try_fuse_pre_post_processing := (lengthv (info p) ! 0 \<le> 2048)\<rparr>)
                   (CreateNodeFromScheme env CS_REAL_TRANSFORM_EVEN (info p))))"
  from SBCC_children_explicit [OF assms] obtain c col where
    *: "RealTransEvenNode_BuildTree_internal env ?rc = Inr (c, cerr)"
       "info t = info p" "childNodes col = []" "1 < length (lengthv (info p))"
       "scheme (info col)
             = (if has_SBCC_kernel pool (lengthv (info p) ! 1) (precision (info p))
                then CS_KERNEL_STOCKHAM_BLOCK_CC else CS_KERNEL_STOCKHAM)"
       "inArrayType (info p) = rocfft_array_type_real \<longrightarrow>
              childNodes t = [c, col]
              \<and> lengthv (info col) = (outputLength (info c))
                     [0 := outputLength (info c) ! 1, 1 := outputLength (info c) ! 0]"
       "inArrayType (info p) \<noteq> rocfft_array_type_real \<longrightarrow>
              childNodes t = [col, c]
              \<and> lengthv (info col) = (lengthv (info p))
                     [0 := lengthv (info p) ! 1, 1 := lengthv (info p) ! 0]"
    by blast
  have rc: "childNodes ?rc = []" "scheme (info ?rc) = CS_REAL_TRANSFORM_EVEN"
    "dimension (info ?rc) = 1"
    "try_fuse_pre_post_processing (info ?rc) = (lengthv (info p) ! 0 \<le> 2048)"
    "lengthv (info ?rc) = (if inArrayType (info p) = rocfft_array_type_real
                           then lengthv (info p) else outputLength (info p))"
    by simp_all
  show ?thesis
    apply (rule exI [of _ ?rc], rule exI [of _ c], rule exI [of _ col])
    using * rc by simp
qed

lemma built_flag_only_if_entry_flag:
  assumes kids: "childNodes this = []"
      and build: "RealTransEvenNode_BuildTree_internal env this = Inr (t, cerr)"
      and flag: "try_fuse_pre_post_processing (info t)"
  shows "try_fuse_pre_post_processing (info this)"
proof -
  from BuildTree_internal_steps [OF build] obtain n0 rl cl cfft n where
    scl: "set_complex_length (info this) = Inr (n0, rl, cl)"
    and n: "n = (if try_fuse_pre_post_processing n0
                 then n0\<lparr>try_fuse_pre_post_processing := isLeafNode cfft\<rparr> else n0)"
    and fwd: "direction n = - 1 \<longrightarrow>
               RealTransEvenNode_case_forward env n (childNodes this) rl cl cfft = Inr (t, cerr)"
    and inv: "direction n = 1 \<longrightarrow>
               RealTransEvenNode_case_inverse env n (childNodes this) rl cl cfft = Inr (t, cerr)"
    and other: "direction n \<noteq> - 1 \<and> direction n \<noteq> 1 \<longrightarrow> t = TreeNode n (childNodes this)"
    by blast
  have "info t = n"
    using fwd inv other kids case_forward_shape [of env n rl cl cfft t cerr]
      case_inverse_shape [of env n rl cl cfft t cerr]
    by (cases "direction n = - 1"; cases "direction n = 1") auto
  with flag n have "try_fuse_pre_post_processing n0"
    by (simp split: if_splits)
  then show ?thesis
    using set_complex_length_keeps(2) [OF scl] by simp
qed

lemma TR_pair_children:
  assumes kids: "childNodes q = []"
      and build: "Real2DEvenNode_BuildTree_internal_TR_pair env q = Inr (t, cerr)"
  shows "\<exists>c. RealTransEvenNode_BuildTree_internal env
               (if inArrayType (info q) = rocfft_array_type_real
                then map_info (\<lambda>i. i\<lparr>dimension := 1\<rparr>)
                       (map_info (\<lambda>i. i\<lparr>lengthv := lengthv (info q)\<rparr>)
                         (CreateNodeFromScheme env CS_REAL_TRANSFORM_EVEN (info q)))
                else map_info (\<lambda>i. i\<lparr>lengthv := outputLength (info q)\<rparr>)
                       (CreateNodeFromScheme env CS_REAL_TRANSFORM_EVEN (info q))) = Inr (c, cerr)
           \<and> c \<in> set (childNodes t) \<and> length (childNodes t) = 4"
  using assms
  by (auto simp: Real2DEvenNode_BuildTree_internal_TR_pair_def bind_err_Inr_iff Let_def
           split: if_splits)

lemma TR_pair_child_flag:
  assumes kids: "childNodes q = []"
      and build: "Real2DEvenNode_BuildTree_internal_TR_pair env q = Inr (t, cerr)"
  shows "\<exists>rc c. childNodes rc = [] \<and> scheme (info rc) = CS_REAL_TRANSFORM_EVEN
         \<and> try_fuse_pre_post_processing (info rc) = try_fuse_pre_post_processing (fresh_node env)
         \<and> lengthv (info rc)
             = (if inArrayType (info q) = rocfft_array_type_real
                then lengthv (info q) else outputLength (info q))
         \<and> RealTransEvenNode_BuildTree_internal env rc = Inr (c, cerr)
         \<and> c \<in> set (childNodes t)"
proof -
  let ?rc = "if inArrayType (info q) = rocfft_array_type_real
                then map_info (\<lambda>i. i\<lparr>dimension := 1\<rparr>)
                       (map_info (\<lambda>i. i\<lparr>lengthv := lengthv (info q)\<rparr>)
                         (CreateNodeFromScheme env CS_REAL_TRANSFORM_EVEN (info q)))
                else map_info (\<lambda>i. i\<lparr>lengthv := outputLength (info q)\<rparr>)
                       (CreateNodeFromScheme env CS_REAL_TRANSFORM_EVEN (info q))"
  from TR_pair_children [OF assms] obtain c where
    c: "RealTransEvenNode_BuildTree_internal env ?rc = Inr (c, cerr)" "c \<in> set (childNodes t)"
    by blast
  have "childNodes ?rc = []" "scheme (info ?rc) = CS_REAL_TRANSFORM_EVEN"
    "try_fuse_pre_post_processing (info ?rc) = try_fuse_pre_post_processing (fresh_node env)"
    "lengthv (info ?rc)
             = (if inArrayType (info q) = rocfft_array_type_real
                then lengthv (info q) else outputLength (info q))"
    by (simp_all add: map_info_def CreateNodeFromScheme_def)
  with c show ?thesis
    by blast
qed

text \<open>
  C1, as the code has it.  First part: an even-length real transform node, forward or
  inverse, that has no children yet and whose tree is built.  The node does not test its
  length: its flag \<open>try_fuse_pre_post_processing\<close> ends as its value on entry and "the
  complex sub-plan is a single (leaf) kernel"; when it holds the node has exactly the two
  children apply-callback and complex kernel, the kernel carrying the embedded tag
  (\<open>Real2C_POST\<close> forward, \<open>C2Real_PRE\<close> inverse); otherwise it has exactly three
  children, the processing being the separate sibling \<open>CS_KERNEL_R_TO_CMPLX\<close> (forward,
  last) or \<open>CS_KERNEL_CMPLX_TO_R\<close> (inverse, first).
  Second part: the column-block builder of a 2-D node \<open>p\<close> enters its even-length child
  with the flag set to \<open>length[0] \<le> 2048\<close>, the fastest extent of \<open>p\<close>: fusion is
  attempted only then.  With real input the child is given the length of \<open>p\<close>, so that
  the extent tested is its own; otherwise it is given \<open>outputLength\<close> of \<open>p\<close>, the real
  extents, and the extent tested is the one of \<open>length\<close> of \<open>p\<close>.
  Third part: the transpose-pair builder of a 2-D node \<open>q\<close> enters its even-length child
  with the flag as a new node has it, whatever the lengths are.
\<close>

theorem RealTransEven_fusion:
  "(childNodes this = []
      \<and> (direction (info this) = - 1 \<or> direction (info this) = 1)
      \<and> RealTransEvenNode_BuildTree_internal env this = Inr (t, cerr)
    \<longrightarrow> (\<exists>md n0 cfft.
           RecursiveBuildTree env
             (map_info (\<lambda>i. i\<lparr>allowOutofplace := False\<rparr>) (CreateExplicitNode env md n0)) = Inr cfft
         \<and> md_length md = (lengthv (info this))[0 := lengthv (info this) ! 0 div 2]
         \<and> try_fuse_pre_post_processing (info t)
             = (try_fuse_pre_post_processing (info this) \<and> isLeafNode cfft)
         \<and> (try_fuse_pre_post_processing (info t) \<and> direction (info this) = - 1 \<longrightarrow>
              (\<exists>cb k. childNodes t = [cb, k]
                 \<and> scheme (info cb) = CS_KERNEL_APPLY_CALLBACK \<and> childNodes cb = []
                 \<and> ebtype (info k) = Real2C_POST \<and> scheme (info k) = scheme (info cfft)
                 \<and> isLeafNode k \<and> childNodes k = childNodes cfft))
         \<and> (try_fuse_pre_post_processing (info t) \<and> direction (info this) = 1 \<longrightarrow>
              (\<exists>k cb. childNodes t = [k, cb]
                 \<and> scheme (info cb) = CS_KERNEL_APPLY_CALLBACK \<and> childNodes cb = []
                 \<and> ebtype (info k) = C2Real_PRE \<and> scheme (info k) = scheme (info cfft)
                 \<and> isLeafNode k \<and> childNodes k = childNodes cfft))
         \<and> (\<not> try_fuse_pre_post_processing (info t) \<and> direction (info this) = - 1 \<longrightarrow>
              (\<exists>cb k post. childNodes t = [cb, k, post]
                 \<and> scheme (info cb) = CS_KERNEL_APPLY_CALLBACK \<and> childNodes cb = []
                 \<and> GetLastLeaf_update
                      (\<lambda>i. i\<lparr>allowedOutArrayTypes := [rocfft_array_type_complex_interleaved]\<rparr>) cfft
                     = Inr k
                 \<and> scheme (info post) = CS_KERNEL_R_TO_CMPLX \<and> childNodes post = []))
         \<and> (\<not> try_fuse_pre_post_processing (info t) \<and> direction (info this) = 1 \<longrightarrow>
              (\<exists>pre cb. childNodes t = [pre, cfft, cb]
                 \<and> scheme (info pre) = CS_KERNEL_CMPLX_TO_R \<and> childNodes pre = []
                 \<and> scheme (info cb) = CS_KERNEL_APPLY_CALLBACK \<and> childNodes cb = []))))
   \<and> (childNodes p = []
      \<and> Real2DEvenNode_BuildTree_internal_SBCC pool env p = Inr (t2, cerr2)
    \<longrightarrow> (\<exists>rc c. childNodes rc = [] \<and> scheme (info rc) = CS_REAL_TRANSFORM_EVEN
         \<and> try_fuse_pre_post_processing (info rc) = (lengthv (info p) ! 0 \<le> 2048)
         \<and> lengthv (info rc)
             = (if inArrayType (info p) = rocfft_array_type_real
                then lengthv (info p) else outputLength (info p))
         \<and> RealTransEvenNode_BuildTree_internal env rc = Inr (c, cerr2)
         \<and> c \<in> set (childNodes t2)
         \<and> (try_fuse_pre_post_processing (info c) \<longrightarrow> lengthv (info p) ! 0 \<le> 2048)))
   \<and> (childNodes q = []
      \<and> Real2DEvenNode_BuildTree_internal_TR_pair env q = Inr (t3, cerr3)
    \<longrightarrow> (\<exists>rc c. childNodes rc = [] \<and> scheme (info rc) = CS_REAL_TRANSFORM_EVEN
         \<and> try_fuse_pre_post_processing (info rc)
             = try_fuse_pre_post_processing (fresh_node env)
         \<and> lengthv (info rc)
             = (if inArrayType (info q) = rocfft_array_type_real
                then lengthv (info q) else outputLength (info q))
         \<and> RealTransEvenNode_BuildTree_internal env rc = Inr (c, cerr3)
         \<and> c \<in> set (childNodes t3)))"
proof (intro conjI impI)
  assume "childNodes this = []
      \<and> (direction (info this) = - 1 \<or> direction (info this) = 1)
      \<and> RealTransEvenNode_BuildTree_internal env this = Inr (t, cerr)"
  then show "\<exists>md n0 cfft.
           RecursiveBuildTree env
             (map_info (\<lambda>i. i\<lparr>allowOutofplace := False\<rparr>) (CreateExplicitNode env md n0)) = Inr cfft
         \<and> md_length md = (lengthv (info this))[0 := lengthv (info this) ! 0 div 2]
         \<and> try_fuse_pre_post_processing (info t)
             = (try_fuse_pre_post_processing (info this) \<and> isLeafNode cfft)
         \<and> (try_fuse_pre_post_processing (info t) \<and> direction (info this) = - 1 \<longrightarrow>
              (\<exists>cb k. childNodes t = [cb, k]
                 \<and> scheme (info cb) = CS_KERNEL_APPLY_CALLBACK \<and> childNodes cb = []
                 \<and> ebtype (info k) = Real2C_POST \<and> scheme (info k) = scheme (info cfft)
                 \<and> isLeafNode k \<and> childNodes k = childNodes cfft))
         \<and> (try_fuse_pre_post_processing (info t) \<and> direction (info this) = 1 \<longrightarrow>
              (\<exists>k cb. childNodes t = [k, cb]
                 \<and> scheme (info cb) = CS_KERNEL_APPLY_CALLBACK \<and> childNodes cb = []
                 \<and> ebtype (info k) = C2Real_PRE \<and> scheme (info k) = scheme (info cfft)
                 \<and> isLeafNode k \<and> childNodes k = childNodes cfft))
         \<and> (\<not> try_fuse_pre_post_processing (info t) \<and> direction (info this) = - 1 \<longrightarrow>
              (\<exists>cb k post. childNodes t = [cb, k, post]
                 \<and> scheme (info cb) = CS_KERNEL_APPLY_CALLBACK \<and> childNodes cb = []
                 \<and> GetLastLeaf_update
                      (\<lambda>i. i\<lparr>allowedOutArrayTypes := [rocfft_array_type_complex_interleaved]\<rparr>) cfft
                     = Inr k
                 \<and> scheme (info post) = CS_KERNEL_R_TO_CMPLX \<and> childNodes post = []))
         \<and> (\<not> try_fuse_pre_post_processing (info t) \<and> direction (info this) = 1 \<longrightarrow>
              (\<exists>pre cb. childNodes t = [pre, cfft, cb]
                 \<and> scheme (info pre) = CS_KERNEL_CMPLX_TO_R \<and> childNodes pre = []
                 \<and> scheme (info cb) = CS_KERNEL_APPLY_CALLBACK \<and> childNodes cb = []))"
    using even_node_children [of this env t cerr] by blast
next
  assume a: "childNodes p = []
      \<and> Real2DEvenNode_BuildTree_internal_SBCC pool env p = Inr (t2, cerr2)"
  then have "childNodes p = []" "Real2DEvenNode_BuildTree_internal_SBCC pool env p = Inr (t2, cerr2)"
    by simp_all
  from SBCC_children [OF this] obtain rc c col where
    rc: "childNodes rc = []" "scheme (info rc) = CS_REAL_TRANSFORM_EVEN"
        "try_fuse_pre_post_processing (info rc) = (lengthv (info p) ! 0 \<le> 2048)"
        "RealTransEvenNode_BuildTree_internal env rc = Inr (c, cerr2)"
    and kids: "inArrayType (info p) = rocfft_array_type_real \<longrightarrow>
                 childNodes t2 = [c, col] \<and> lengthv (info rc) = lengthv (info p)"
              "inArrayType (info p) \<noteq> rocfft_array_type_real \<longrightarrow>
                 childNodes t2 = [col, c] \<and> lengthv (info rc) = outputLength (info p)"
    by blast
  from kids have len: "lengthv (info rc)
             = (if inArrayType (info p) = rocfft_array_type_real
                then lengthv (info p) else outputLength (info p))"
    by simp
  from kids have mem: "c \<in> set (childNodes t2)"
    by (cases "inArrayType (info p) = rocfft_array_type_real") simp_all
  have fl: "try_fuse_pre_post_processing (info c) \<longrightarrow> try_fuse_pre_post_processing (info rc)"
    using built_flag_only_if_entry_flag [OF rc(1) rc(4)] by blast
  show "\<exists>rc c. childNodes rc = [] \<and> scheme (info rc) = CS_REAL_TRANSFORM_EVEN
         \<and> try_fuse_pre_post_processing (info rc) = (lengthv (info p) ! 0 \<le> 2048)
         \<and> lengthv (info rc)
             = (if inArrayType (info p) = rocfft_array_type_real
                then lengthv (info p) else outputLength (info p))
         \<and> RealTransEvenNode_BuildTree_internal env rc = Inr (c, cerr2)
         \<and> c \<in> set (childNodes t2)
         \<and> (try_fuse_pre_post_processing (info c) \<longrightarrow> lengthv (info p) ! 0 \<le> 2048)"
    using rc mem fl len by blast
next
  assume "childNodes q = []
      \<and> Real2DEvenNode_BuildTree_internal_TR_pair env q = Inr (t3, cerr3)"
  then have "childNodes q = []" "Real2DEvenNode_BuildTree_internal_TR_pair env q = Inr (t3, cerr3)"
    by simp_all
  from TR_pair_child_flag [OF this]
  show "\<exists>rc c. childNodes rc = [] \<and> scheme (info rc) = CS_REAL_TRANSFORM_EVEN
         \<and> try_fuse_pre_post_processing (info rc)
             = try_fuse_pre_post_processing (fresh_node env)
         \<and> lengthv (info rc)
             = (if inArrayType (info q) = rocfft_array_type_real
                then lengthv (info q) else outputLength (info q))
         \<and> RealTransEvenNode_BuildTree_internal env rc = Inr (c, cerr3)
         \<and> c \<in> set (childNodes t3)" .
qed

lemmas build_eval =
  RealTransEvenNode_BuildTree_internal_def RealTransEvenNode_case_forward_def
  RealTransEvenNode_case_inverse_def Real2DEvenNode_BuildTree_internal_SBCC_def
  sample_env_def sample_node_def sample_explicit_node_def bind_err_def at_vec_def assert_that_def
  set_complex_length_def modify_vec_def swap_vec_def NodeMetaData_of_def map_info_def isLeafNode_def
  CreateNodeFromScheme_def has_SBCC_kernel_def has_function_def fpkey_def Let_def

theorem RealTransEven_fusion_witness:
  "\<exists>t u t2 t3.
     childNodes (TreeNode (sample_node\<lparr>scheme := CS_REAL_TRANSFORM_EVEN, lengthv := [1024, 64],
                                        try_fuse_pre_post_processing := True\<rparr>) []) = []
   \<and> direction (info (TreeNode (sample_node\<lparr>scheme := CS_REAL_TRANSFORM_EVEN, lengthv := [1024, 64],
                                        try_fuse_pre_post_processing := True\<rparr>) [])) = - 1
   \<and> RealTransEvenNode_BuildTree_internal (sample_env NT_LEAF)
        (TreeNode (sample_node\<lparr>scheme := CS_REAL_TRANSFORM_EVEN, lengthv := [1024, 64],
                                try_fuse_pre_post_processing := True\<rparr>) []) = Inr (t, [])
   \<and> try_fuse_pre_post_processing (info t)
   \<and> (\<exists>cb k. childNodes t = [cb, k] \<and> scheme (info cb) = CS_KERNEL_APPLY_CALLBACK
         \<and> ebtype (info k) = Real2C_POST \<and> isLeafNode k)
   \<and> childNodes (TreeNode (sample_node\<lparr>scheme := CS_REAL_TRANSFORM_EVEN, lengthv := [1024, 64],
                                        direction := 1\<rparr>) []) = []
   \<and> direction (info (TreeNode (sample_node\<lparr>scheme := CS_REAL_TRANSFORM_EVEN, lengthv := [1024, 64],
                                        direction := 1\<rparr>) [])) = 1
   \<and> RealTransEvenNode_BuildTree_internal (sample_env NT_LEAF)
        (TreeNode (sample_node\<lparr>scheme := CS_REAL_TRANSFORM_EVEN, lengthv := [1024, 64],
                                direction := 1\<rparr>) []) = Inr (u, [])
   \<and> \<not> try_fuse_pre_post_processing (info u)
   \<and> (\<exists>pre k cb. childNodes u = [pre, k, cb] \<and> scheme (info pre) = CS_KERNEL_CMPLX_TO_R
         \<and> scheme (info cb) = CS_KERNEL_APPLY_CALLBACK)
   \<and> childNodes (TreeNode (sample_node\<lparr>scheme := CS_REAL_2D_EVEN, dimension := 2,
                                        lengthv := [4096, 64], outputLength := [2049, 64],
                                        inArrayType := rocfft_array_type_real\<rparr>) []) = []
   \<and> Real2DEvenNode_BuildTree_internal_SBCC Map.empty (sample_env NT_LEAF)
        (TreeNode (sample_node\<lparr>scheme := CS_REAL_2D_EVEN, dimension := 2,
                                lengthv := [4096, 64], outputLength := [2049, 64],
                                inArrayType := rocfft_array_type_real\<rparr>) []) = Inr (t2, [])
   \<and> (\<exists>rc c. try_fuse_pre_post_processing (info rc) = (4096 \<le> (2048 :: size_t))
         \<and> RealTransEvenNode_BuildTree_internal (sample_env NT_LEAF) rc = Inr (c, [])
         \<and> c \<in> set (childNodes t2))
   \<and> Real2DEvenNode_BuildTree_internal_TR_pair (sample_env NT_LEAF)
        (TreeNode (sample_node\<lparr>scheme := CS_REAL_2D_EVEN, dimension := 2,
                                lengthv := [4096, 64], outputLength := [2049, 64],
                                inArrayType := rocfft_array_type_real\<rparr>) []) = Inr (t3, [])
   \<and> (\<exists>rc c. try_fuse_pre_post_processing (info rc)
                = try_fuse_pre_post_processing (fresh_node (sample_env NT_LEAF))
         \<and> lengthv (info rc) = [4096, 64]
         \<and> RealTransEvenNode_BuildTree_internal (sample_env NT_LEAF) rc = Inr (c, [])
         \<and> c \<in> set (childNodes t3))"
proof -
  let ?rc = "TreeNode (sample_node\<lparr>scheme := CS_REAL_TRANSFORM_EVEN, lengthv := [1024, 64],
                                      try_fuse_pre_post_processing := True\<rparr>) []"
  let ?cr = "TreeNode (sample_node\<lparr>scheme := CS_REAL_TRANSFORM_EVEN, lengthv := [1024, 64],
                                      direction := 1\<rparr>) []"
  let ?p = "TreeNode (sample_node\<lparr>scheme := CS_REAL_2D_EVEN, dimension := 2,
                                     lengthv := [4096, 64], outputLength := [2049, 64],
                                     inArrayType := rocfft_array_type_real\<rparr>) []"
  obtain t where t: "RealTransEvenNode_BuildTree_internal (sample_env NT_LEAF) ?rc = Inr (t, [])"
    and flag: "try_fuse_pre_post_processing (info t)"
    by (simp add: build_eval)
  obtain u where u: "RealTransEvenNode_BuildTree_internal (sample_env NT_LEAF) ?cr = Inr (u, [])"
    and unfused: "\<not> try_fuse_pre_post_processing (info u)"
    by (simp add: build_eval)
  obtain t2 where t2: "Real2DEvenNode_BuildTree_internal_SBCC Map.empty (sample_env NT_LEAF) ?p
                         = Inr (t2, [])"
    by (simp add: build_eval)
  obtain t3 where t3: "Real2DEvenNode_BuildTree_internal_TR_pair (sample_env NT_LEAF) ?p
                         = Inr (t3, [])"
    by (simp add: build_eval Real2DEvenNode_BuildTree_internal_TR_pair_def
        SetTransposeOutputLength_def add_shim_if_fusable_def)
  have rc: "childNodes ?rc = []" "direction (info ?rc) = - 1"
    by (simp_all add: sample_node_def)
  have cr: "childNodes ?cr = []" "direction (info ?cr) = 1"
    by (simp_all add: sample_node_def)
  have p: "childNodes ?p = []" "lengthv (info ?p) ! 0 = 4096"
    "inArrayType (info ?p) = rocfft_array_type_real" "lengthv (info ?p) = [4096, 64]"
    by (simp_all add: sample_node_def)
  note fusion = RealTransEven_fusion [where this = ?rc and env = "sample_env NT_LEAF" and t = t
      and cerr = "[]" and p = ?p and pool = Map.empty and ?t2.0 = t2 and ?cerr2.0 = "[]"
      and q = ?p and ?t3.0 = t3 and ?cerr3.0 = "[]"]
  note separate = RealTransEven_fusion [where this = ?cr and env = "sample_env NT_LEAF" and t = u
      and cerr = "[]" and p = ?p and pool = Map.empty and ?t2.0 = t2 and ?cerr2.0 = "[]"
      and q = ?p and ?t3.0 = t3 and ?cerr3.0 = "[]"]
  from fusion rc t flag have two: "\<exists>cb k. childNodes t = [cb, k]
         \<and> scheme (info cb) = CS_KERNEL_APPLY_CALLBACK
         \<and> ebtype (info k) = Real2C_POST \<and> isLeafNode k"
    by blast
  from separate cr u unfused have three: "\<exists>pre k cb. childNodes u = [pre, k, cb]
         \<and> scheme (info pre) = CS_KERNEL_CMPLX_TO_R
         \<and> scheme (info cb) = CS_KERNEL_APPLY_CALLBACK"
    by blast
  from fusion p(1) t2 have "\<exists>rc c. try_fuse_pre_post_processing (info rc)
            = (lengthv (info ?p) ! 0 \<le> (2048 :: size_t))
         \<and> RealTransEvenNode_BuildTree_internal (sample_env NT_LEAF) rc = Inr (c, [])
         \<and> c \<in> set (childNodes t2)"
    by blast
  then have child: "\<exists>rc c. try_fuse_pre_post_processing (info rc) = (4096 \<le> (2048 :: size_t))
         \<and> RealTransEvenNode_BuildTree_internal (sample_env NT_LEAF) rc = Inr (c, [])
         \<and> c \<in> set (childNodes t2)"
    by (simp only: p(2))
  from fusion p(1) t3 have "\<exists>rc c. try_fuse_pre_post_processing (info rc)
                = try_fuse_pre_post_processing (fresh_node (sample_env NT_LEAF))
         \<and> lengthv (info rc)
             = (if inArrayType (info ?p) = rocfft_array_type_real
                then lengthv (info ?p) else outputLength (info ?p))
         \<and> RealTransEvenNode_BuildTree_internal (sample_env NT_LEAF) rc = Inr (c, [])
         \<and> c \<in> set (childNodes t3)"
    by blast
  then have pair: "\<exists>rc c. try_fuse_pre_post_processing (info rc)
                = try_fuse_pre_post_processing (fresh_node (sample_env NT_LEAF))
         \<and> lengthv (info rc) = [4096, 64]
         \<and> RealTransEvenNode_BuildTree_internal (sample_env NT_LEAF) rc = Inr (c, [])
         \<and> c \<in> set (childNodes t3)"
    by (simp only: p(3,4) simp_thms if_True)
  from rc t flag two cr u unfused three p(1) t2 child t3 pair show ?thesis
    by blast
qed

text \<open>
  C1, as the claim has it, fails on a node of length 4096 whose flag is set on entry and
  whose complex sub-plan is a single kernel: the node is built fused, with the two
  children apply-callback and complex kernel tagged \<open>Real2C_POST\<close>, although its fastest
  length exceeds 2048.
\<close>

theorem RealTransEven_fusion_above_2048_counterexample:
  "RealTransEvenNode_BuildTree_internal (sample_env NT_LEAF)
     (TreeNode (sample_node\<lparr>scheme := CS_REAL_TRANSFORM_EVEN, lengthv := [4096],
                             try_fuse_pre_post_processing := True\<rparr>) [])
     = Inr (TreeNode (sample_node\<lparr>scheme := CS_REAL_TRANSFORM_EVEN, lengthv := [4096],
                                   outputLength := [2049],
                                   try_fuse_pre_post_processing := True\<rparr>)
              [TreeNode (sample_node\<lparr>scheme := CS_KERNEL_APPLY_CALLBACK, lengthv := [4096]\<rparr>) [],
               TreeNode (sample_node\<lparr>scheme := CS_KERNEL_STOCKHAM, nodeType := NT_LEAF,
                                      lengthv := [2048], outputLength := [2049],
                                      ebtype := Real2C_POST\<rparr>) []], [])
   \<and> \<not> (4096 :: size_t) \<le> 2048"
  by (simp add: build_eval)

lemma built_info:
  assumes kids: "childNodes this = []"
      and build: "RealTransEvenNode_BuildTree_internal env this = Inr (t, cerr)"
  shows "\<exists>n0 rl cl. set_complex_length (info this) = Inr (n0, rl, cl)
           \<and> info t = n0\<lparr>try_fuse_pre_post_processing := try_fuse_pre_post_processing (info t)\<rparr>"
proof -
  from BuildTree_internal_steps [OF build] obtain n0 rl cl cfft n where
    scl: "set_complex_length (info this) = Inr (n0, rl, cl)"
    and n: "n = (if try_fuse_pre_post_processing n0
                 then n0\<lparr>try_fuse_pre_post_processing := isLeafNode cfft\<rparr> else n0)"
    and fwd: "direction n = - 1 \<longrightarrow>
               RealTransEvenNode_case_forward env n (childNodes this) rl cl cfft = Inr (t, cerr)"
    and inv: "direction n = 1 \<longrightarrow>
               RealTransEvenNode_case_inverse env n (childNodes this) rl cl cfft = Inr (t, cerr)"
    and other: "direction n \<noteq> - 1 \<and> direction n \<noteq> 1 \<longrightarrow> t = TreeNode n (childNodes this)"
    by blast
  have "info t = n"
    using fwd inv other kids case_forward_shape [of env n rl cl cfft t cerr]
      case_inverse_shape [of env n rl cl cfft t cerr]
    by (cases "direction n = - 1"; cases "direction n = 1") auto
  with n have "info t = n0\<lparr>try_fuse_pre_post_processing := try_fuse_pre_post_processing (info t)\<rparr>"
    by (simp split: if_splits)
  with scl show ?thesis
    by blast
qed

text \<open>
  C6.  The node that applies the user's callback sits at the side of the real buffer: it
  is the first child of a forward transform and the last child of an inverse one, and its
  length is the vector of the real extents, which is the length the node was given (and
  \<open>length\<close> of the built forward node, \<open>outputLength\<close> of the built inverse node).
\<close>

theorem apply_callback_at_real_boundary:
  assumes kids: "childNodes this = []"
      and build: "RealTransEvenNode_BuildTree_internal env this = Inr (t, cerr)"
  shows "(direction (info this) = - 1 \<longrightarrow>
            (\<exists>cb rest. childNodes t = cb # rest
               \<and> scheme (info cb) = CS_KERNEL_APPLY_CALLBACK
               \<and> lengthv (info cb) = lengthv (info this)
               \<and> lengthv (info t) = lengthv (info this)))
       \<and> (direction (info this) = 1 \<longrightarrow>
            (\<exists>rest cb. childNodes t = rest @ [cb]
               \<and> scheme (info cb) = CS_KERNEL_APPLY_CALLBACK
               \<and> lengthv (info cb) = lengthv (info this)
               \<and> outputLength (info t) = lengthv (info this)))"
proof -
  from BuildTree_internal_steps [OF build] obtain n0 rl cl cfft n where
    scl: "set_complex_length (info this) = Inr (n0, rl, cl)"
    and n: "n = (if try_fuse_pre_post_processing n0
                 then n0\<lparr>try_fuse_pre_post_processing := isLeafNode cfft\<rparr> else n0)"
    and fwd: "direction n = - 1 \<longrightarrow>
               RealTransEvenNode_case_forward env n (childNodes this) rl cl cfft = Inr (t, cerr)"
    and inv: "direction n = 1 \<longrightarrow>
               RealTransEvenNode_case_inverse env n (childNodes this) rl cl cfft = Inr (t, cerr)"
    by blast
  have dn: "direction n = direction (info this)"
    using n set_complex_length_keeps(1) [OF scl] by (simp split: if_splits)
  from set_complex_length_Inr [OF scl] obtain L ls where
    len: "lengthv (info this) = L # ls"
    and f: "direction (info this) = - 1 \<longrightarrow>
              n0 = (info this)\<lparr>outputLength := (L div 2 + 1) # ls\<rparr> \<and> rl = RefLength"
    and i: "direction (info this) \<noteq> - 1 \<longrightarrow>
              n0 = (info this)\<lparr>lengthv := (L div 2 + 1) # ls, outputLength := L # ls\<rparr>"
    by blast
  show ?thesis
  proof (intro conjI impI)
    assume d: "direction (info this) = - 1"
    with f n have real: "deref n rl = lengthv (info this)" "lengthv n = lengthv (info this)"
      by (simp_all split: if_splits)
    from d fwd dn kids have "RealTransEvenNode_case_forward env n [] rl cl cfft = Inr (t, cerr)"
      by simp
    from case_forward_shape [OF this] real
    show "\<exists>cb rest. childNodes t = cb # rest
               \<and> scheme (info cb) = CS_KERNEL_APPLY_CALLBACK
               \<and> lengthv (info cb) = lengthv (info this)
               \<and> lengthv (info t) = lengthv (info this)"
      by (cases "try_fuse_pre_post_processing n") auto
  next
    assume d: "direction (info this) = 1"
    with i n len have real: "outputLength n = lengthv (info this)"
      by (simp split: if_splits)
    from d inv dn kids have "RealTransEvenNode_case_inverse env n [] rl cl cfft = Inr (t, cerr)"
      by simp
    from case_inverse_shape [OF this] real
    show "\<exists>rest cb. childNodes t = rest @ [cb]
               \<and> scheme (info cb) = CS_KERNEL_APPLY_CALLBACK
               \<and> lengthv (info cb) = lengthv (info this)
               \<and> outputLength (info t) = lengthv (info this)"
      by (cases "try_fuse_pre_post_processing n") auto
  qed
qed

theorem apply_callback_at_real_boundary_witness:
  "\<exists>t u.
     childNodes (TreeNode (sample_node\<lparr>scheme := CS_REAL_TRANSFORM_EVEN, lengthv := [1024]\<rparr>) []) = []
   \<and> RealTransEvenNode_BuildTree_internal (sample_env NT_LEAF)
        (TreeNode (sample_node\<lparr>scheme := CS_REAL_TRANSFORM_EVEN, lengthv := [1024]\<rparr>) []) = Inr (t, [])
   \<and> direction (info (TreeNode (sample_node\<lparr>scheme := CS_REAL_TRANSFORM_EVEN, lengthv := [1024]\<rparr>) [])) = - 1
   \<and> (\<exists>cb rest. childNodes t = cb # rest \<and> scheme (info cb) = CS_KERNEL_APPLY_CALLBACK
         \<and> lengthv (info cb) = [1024] \<and> lengthv (info t) = [1024])
   \<and> childNodes (TreeNode (sample_node\<lparr>scheme := CS_REAL_TRANSFORM_EVEN, lengthv := [1024],
                                        direction := 1\<rparr>) []) = []
   \<and> RealTransEvenNode_BuildTree_internal (sample_env NT_LEAF)
        (TreeNode (sample_node\<lparr>scheme := CS_REAL_TRANSFORM_EVEN, lengthv := [1024],
                                direction := 1\<rparr>) []) = Inr (u, [])
   \<and> direction (info (TreeNode (sample_node\<lparr>scheme := CS_REAL_TRANSFORM_EVEN, lengthv := [1024],
                                        direction := 1\<rparr>) [])) = 1
   \<and> (\<exists>rest cb. childNodes u = rest @ [cb] \<and> scheme (info cb) = CS_KERNEL_APPLY_CALLBACK
         \<and> lengthv (info cb) = [1024] \<and> outputLength (info u) = [1024])"
proof -
  let ?f = "TreeNode (sample_node\<lparr>scheme := CS_REAL_TRANSFORM_EVEN, lengthv := [1024]\<rparr>) []"
  let ?i = "TreeNode (sample_node\<lparr>scheme := CS_REAL_TRANSFORM_EVEN, lengthv := [1024],
                                    direction := 1\<rparr>) []"
  obtain t where t: "RealTransEvenNode_BuildTree_internal (sample_env NT_LEAF) ?f = Inr (t, [])"
    by (simp add: build_eval)
  obtain u where u: "RealTransEvenNode_BuildTree_internal (sample_env NT_LEAF) ?i = Inr (u, [])"
    by (simp add: build_eval)
  have f: "childNodes ?f = []" "direction (info ?f) = - 1" "lengthv (info ?f) = [1024]"
    by (simp_all add: sample_node_def)
  have i: "childNodes ?i = []" "direction (info ?i) = 1" "lengthv (info ?i) = [1024]"
    by (simp_all add: sample_node_def)
  from apply_callback_at_real_boundary [OF f(1) t] f(2)
  have "\<exists>cb rest. childNodes t = cb # rest \<and> scheme (info cb) = CS_KERNEL_APPLY_CALLBACK
         \<and> lengthv (info cb) = lengthv (info ?f) \<and> lengthv (info t) = lengthv (info ?f)"
    by blast
  then have ft: "\<exists>cb rest. childNodes t = cb # rest \<and> scheme (info cb) = CS_KERNEL_APPLY_CALLBACK
         \<and> lengthv (info cb) = [1024] \<and> lengthv (info t) = [1024]"
    by (simp only: f(3))
  from apply_callback_at_real_boundary [OF i(1) u] i(2)
  have "\<exists>rest cb. childNodes u = rest @ [cb] \<and> scheme (info cb) = CS_KERNEL_APPLY_CALLBACK
         \<and> lengthv (info cb) = lengthv (info ?i) \<and> outputLength (info u) = lengthv (info ?i)"
    by blast
  then have iu: "\<exists>rest cb. childNodes u = rest @ [cb] \<and> scheme (info cb) = CS_KERNEL_APPLY_CALLBACK
         \<and> lengthv (info cb) = [1024] \<and> outputLength (info u) = [1024]"
    by (simp only: i(3))
  from f(1,2) t ft i(1,2) u iu show ?thesis
    by blast
qed

text \<open>
  C9.  A node of direction 0: the tree builder writes its message and returns normally;
  the node it leaves has no children at all, and no error is raised.
\<close>

theorem invalid_direction_leaves_childless_node:
  "RealTransEvenNode_BuildTree_internal (sample_env NT_LEAF)
     (TreeNode (sample_node\<lparr>scheme := CS_REAL_TRANSFORM_EVEN, lengthv := [8], direction := 0\<rparr>) [])
   = Inr (TreeNode (sample_node\<lparr>scheme := CS_REAL_TRANSFORM_EVEN, lengthv := [5],
                                 outputLength := [8], direction := 0\<rparr>) [],
          [''invalid direction: plan creation failed!'' @ [CHR 0x0A]])"
  by (simp add: build_eval)

section \<open>Choice of the strategy of a 2-D node\<close>

lemma solution_add_shim [simp]:
  "solution (add_shim_if_fusable env ft nodes places n) = solution n"
  by (simp add: add_shim_if_fusable_def)

lemma TR_pair_solution:
  assumes "Real2DEvenNode_BuildTree_internal_TR_pair env p = Inr (t, cerr)"
  shows "solution (info t) = solution (info p)"
  using assms
  by (auto simp: Real2DEvenNode_BuildTree_internal_TR_pair_def bind_err_Inr_iff Let_def
           split: if_splits)

lemma Real2DEven_steps:
  assumes "Real2DEvenNode_BuildTree_internal pool env this = Inr (t, cerr)"
  shows "\<exists>n rl cl available.
           set_complex_length (info this) = Inr (n, rl, cl)
         \<and> SBCC_dim_available pool (lengthv n) 1 (precision n) = Inr available
         \<and> (available \<longrightarrow>
              Real2DEvenNode_BuildTree_internal_SBCC pool env
                (TreeNode (n\<lparr>solution := INPLACE_SBCC\<rparr>) (childNodes this)) = Inr (t, cerr))
         \<and> (\<not> available \<longrightarrow>
              Real2DEvenNode_BuildTree_internal_TR_pair env
                (TreeNode (n\<lparr>solution := TR_PAIR\<rparr>) (childNodes this)) = Inr (t, cerr))"
  using assms
  by (auto simp: Real2DEvenNode_BuildTree_internal_def bind_err_Inr_iff Let_def
           split: if_splits)

lemma built_child_extents:
  assumes kids: "childNodes rc = []"
      and build: "RealTransEvenNode_BuildTree_internal env rc = Inr (c, cerr)"
  shows "scheme (info c) = scheme (info rc)" and "dimension (info c) = dimension (info rc)"
    and "tl (outputLength (info c)) = tl (lengthv (info rc))"
proof -
  from built_info [OF kids build] obtain n0 rl cl where
    scl: "set_complex_length (info rc) = Inr (n0, rl, cl)"
    and c: "info c = n0\<lparr>try_fuse_pre_post_processing := try_fuse_pre_post_processing (info c)\<rparr>"
    by blast
  have "scheme (info c) = scheme n0" "dimension (info c) = dimension n0"
    "outputLength (info c) = outputLength n0"
    by (subst c, simp)+
  moreover from set_complex_length_Inr [OF scl]
  have "tl (outputLength n0) = tl (lengthv (info rc))"
    by (cases "direction (info rc) = - 1") auto
  ultimately show "scheme (info c) = scheme (info rc)" "dimension (info c) = dimension (info rc)"
    "tl (outputLength (info c)) = tl (lengthv (info rc))"
    using set_complex_length_keeps [OF scl] by simp_all
qed

text \<open>
  C4.  A 2-D even-length node without children whose tree is built.  The strategy recorded
  on the node is \<open>INPLACE_SBCC\<close> exactly when the availability check answers true for
  dimension 1 of the node's length (after \<^verbatim>\<open>set_complex_length\<close>) and its precision, and
  is \<open>TR_PAIR\<close> otherwise.  In the column-block case with real input the node has exactly
  two children: first the even-length real transform of dimension 1, then the column
  kernel, a childless node whose first extent is the extent of dimension 1 and whose
  scheme is the block-CC kernel when the catalog has one for that extent and the generic
  Stockham kernel otherwise.
\<close>

theorem Real2DEven_strategy:
  assumes kids: "childNodes this = []"
      and build: "Real2DEvenNode_BuildTree_internal pool env this = Inr (t, cerr)"
  shows "\<exists>n rl cl available.
           set_complex_length (info this) = Inr (n, rl, cl)
         \<and> SBCC_dim_available pool (lengthv n) 1 (precision n) = Inr available
         \<and> (solution (info t) = INPLACE_SBCC \<longleftrightarrow> available)
         \<and> (\<not> available \<longrightarrow> solution (info t) = TR_PAIR)
         \<and> (available \<and> inArrayType (info this) = rocfft_array_type_real \<longrightarrow>
              (\<exists>row col. childNodes t = [row, col]
                 \<and> scheme (info row) = CS_REAL_TRANSFORM_EVEN \<and> dimension (info row) = 1
                 \<and> childNodes col = []
                 \<and> lengthv (info col) ! 0 = lengthv n ! 1
                 \<and> scheme (info col)
                     = (if has_SBCC_kernel pool (lengthv n ! 1) (precision n)
                        then CS_KERNEL_STOCKHAM_BLOCK_CC else CS_KERNEL_STOCKHAM)))"
proof -
  from Real2DEven_steps [OF build] obtain n rl cl available where
    scl: "set_complex_length (info this) = Inr (n, rl, cl)"
    and av: "SBCC_dim_available pool (lengthv n) 1 (precision n) = Inr available"
    and sbcc: "available \<longrightarrow>
              Real2DEvenNode_BuildTree_internal_SBCC pool env
                (TreeNode (n\<lparr>solution := INPLACE_SBCC\<rparr>) (childNodes this)) = Inr (t, cerr)"
    and tr: "\<not> available \<longrightarrow>
              Real2DEvenNode_BuildTree_internal_TR_pair env
                (TreeNode (n\<lparr>solution := TR_PAIR\<rparr>) (childNodes this)) = Inr (t, cerr)"
    by blast
  let ?p = "TreeNode (n\<lparr>solution := INPLACE_SBCC\<rparr>) []"
  have sol: "(solution (info t) = INPLACE_SBCC \<longleftrightarrow> available)
           \<and> (\<not> available \<longrightarrow> solution (info t) = TR_PAIR)"
  proof (cases available)
    case True
    with sbcc kids have "Real2DEvenNode_BuildTree_internal_SBCC pool env ?p = Inr (t, cerr)"
      by simp
    from SBCC_children [OF _ this] have "info t = info ?p"
      by auto
    with True show ?thesis
      by simp
  next
    case False
    with tr TR_pair_solution have "solution (info t) = TR_PAIR"
      by fastforce
    with False show ?thesis
      by simp
  qed
  have two: "\<exists>row col. childNodes t = [row, col]
                 \<and> scheme (info row) = CS_REAL_TRANSFORM_EVEN \<and> dimension (info row) = 1
                 \<and> childNodes col = []
                 \<and> lengthv (info col) ! 0 = lengthv n ! 1
                 \<and> scheme (info col)
                     = (if has_SBCC_kernel pool (lengthv n ! 1) (precision n)
                        then CS_KERNEL_STOCKHAM_BLOCK_CC else CS_KERNEL_STOCKHAM)"
    if a: "available" and r: "inArrayType (info this) = rocfft_array_type_real"
  proof -
    from a sbcc kids have b: "Real2DEvenNode_BuildTree_internal_SBCC pool env ?p = Inr (t, cerr)"
      by simp
    have rn: "inArrayType (info ?p) = rocfft_array_type_real"
      using r set_complex_length_keeps(3) [OF scl] by simp
    from SBCC_children [OF _ b] rn obtain rc c col where
      rc: "childNodes rc = []" "scheme (info rc) = CS_REAL_TRANSFORM_EVEN" "dimension (info rc) = 1"
          "RealTransEvenNode_BuildTree_internal env rc = Inr (c, cerr)"
      and col: "childNodes col = []" "1 < length (lengthv (info ?p))"
          "scheme (info col)
             = (if has_SBCC_kernel pool (lengthv (info ?p) ! 1) (precision (info ?p))
                then CS_KERNEL_STOCKHAM_BLOCK_CC else CS_KERNEL_STOCKHAM)"
      and t: "childNodes t = [c, col]" "lengthv (info rc) = lengthv (info ?p)"
          "lengthv (info col) = (outputLength (info c))
                     [0 := outputLength (info c) ! 1, 1 := outputLength (info c) ! 0]"
      by auto
    note ext = built_child_extents [OF rc(1) rc(4)]
    from ext(3) t(2) have tl: "tl (outputLength (info c)) = tl (lengthv n)"
      by simp
    from col(2) have ln: "1 < length (lengthv n)"
      by simp
    then obtain a b ls where n: "lengthv n = a # b # ls"
      by (cases "lengthv n"; cases "tl (lengthv n)") auto
    with tl obtain a' where oc: "outputLength (info c) = a' # b # ls"
      by (cases "outputLength (info c)") auto
    then have len: "1 < length (outputLength (info c))"
      by simp
    have "lengthv (info col) ! 0 = lengthv n ! 1"
      by (simp add: t(3) oc n)
    with rc ext col t show ?thesis
      by simp
  qed
  from scl av sol two show ?thesis
    by blast
qed

lemmas plan2d_eval =
  Real2DEvenNode_BuildTree_internal_def Real2DEvenNode_BuildTree_internal_TR_pair_def
  SBCC_dim_available_def get_kernel_def SetTransposeOutputLength_def add_shim_if_fusable_def
  sample_kernel_def

theorem Real2DEven_strategy_witness:
  "\<exists>t u.
     childNodes (TreeNode (sample_node\<lparr>scheme := CS_REAL_2D_EVEN, dimension := 2, lengthv := [64, 64],
                                        inArrayType := rocfft_array_type_real\<rparr>) []) = []
   \<and> inArrayType (info (TreeNode (sample_node\<lparr>scheme := CS_REAL_2D_EVEN, dimension := 2,
                                        lengthv := [64, 64],
                                        inArrayType := rocfft_array_type_real\<rparr>) []))
       = rocfft_array_type_real
   \<and> Real2DEvenNode_BuildTree_internal
        (Map.empty(fpkey 64 rocfft_precision_single CS_KERNEL_STOCKHAM_BLOCK_CC \<mapsto> sample_kernel 2))
        (sample_env NT_LEAF)
        (TreeNode (sample_node\<lparr>scheme := CS_REAL_2D_EVEN, dimension := 2, lengthv := [64, 64],
                                inArrayType := rocfft_array_type_real\<rparr>) []) = Inr (t, [])
   \<and> SBCC_dim_available
        (Map.empty(fpkey 64 rocfft_precision_single CS_KERNEL_STOCKHAM_BLOCK_CC \<mapsto> sample_kernel 2))
        [64, 64] 1 rocfft_precision_single = Inr True
   \<and> solution (info t) = INPLACE_SBCC
   \<and> (\<exists>row col. childNodes t = [row, col]
         \<and> scheme (info row) = CS_REAL_TRANSFORM_EVEN \<and> dimension (info row) = 1
         \<and> childNodes col = [] \<and> lengthv (info col) ! 0 = 64
         \<and> scheme (info col) = CS_KERNEL_STOCKHAM_BLOCK_CC)
   \<and> Real2DEvenNode_BuildTree_internal
        (Map.empty(fpkey 64 rocfft_precision_single CS_KERNEL_STOCKHAM \<mapsto> sample_kernel 4))
        (sample_env NT_LEAF)
        (TreeNode (sample_node\<lparr>scheme := CS_REAL_2D_EVEN, dimension := 2, lengthv := [64, 64],
                                inArrayType := rocfft_array_type_real\<rparr>) []) = Inr (u, [])
   \<and> SBCC_dim_available
        (Map.empty(fpkey 64 rocfft_precision_single CS_KERNEL_STOCKHAM \<mapsto> sample_kernel 4))
        [64, 64] 1 rocfft_precision_single = Inr False
   \<and> solution (info u) = TR_PAIR"
proof -
  let ?a = "TreeNode (sample_node\<lparr>scheme := CS_REAL_2D_EVEN, dimension := 2, lengthv := [64, 64],
                                    inArrayType := rocfft_array_type_real\<rparr>) []"
  let ?cc = "Map.empty(fpkey 64 rocfft_precision_single CS_KERNEL_STOCKHAM_BLOCK_CC \<mapsto> sample_kernel 2)"
  let ?st = "Map.empty(fpkey 64 rocfft_precision_single CS_KERNEL_STOCKHAM \<mapsto> sample_kernel 4)"
  let ?n = "sample_node\<lparr>scheme := CS_REAL_2D_EVEN, dimension := 2, lengthv := [64, 64],
                         inArrayType := rocfft_array_type_real, outputLength := [33, 64]\<rparr>"
  obtain t where t: "Real2DEvenNode_BuildTree_internal ?cc (sample_env NT_LEAF) ?a = Inr (t, [])"
    by (simp add: build_eval plan2d_eval)
  obtain u where u: "Real2DEvenNode_BuildTree_internal ?st (sample_env NT_LEAF) ?a = Inr (u, [])"
    by (simp add: build_eval plan2d_eval)
  have a: "childNodes ?a = []" "inArrayType (info ?a) = rocfft_array_type_real"
    by (simp_all add: sample_node_def)
  have scl: "set_complex_length (info ?a) = Inr (?n, RefLength, RefOutputLength)"
    by (simp add: set_complex_length_def sample_node_def)
  have n: "lengthv ?n = [64, 64]" "precision ?n = rocfft_precision_single"
    by (simp_all add: sample_node_def)
  have cc: "SBCC_dim_available ?cc [64, 64] 1 rocfft_precision_single = Inr True"
           "has_SBCC_kernel ?cc 64 rocfft_precision_single"
    by (simp_all add: build_eval plan2d_eval)
  have st: "SBCC_dim_available ?st [64, 64] 1 rocfft_precision_single = Inr False"
    by (simp add: build_eval plan2d_eval)
  from Real2DEven_strategy [OF a(1) t] scl n cc a(2)
  have tt: "solution (info t) = INPLACE_SBCC
     \<and> (\<exists>row col. childNodes t = [row, col]
         \<and> scheme (info row) = CS_REAL_TRANSFORM_EVEN \<and> dimension (info row) = 1
         \<and> childNodes col = [] \<and> lengthv (info col) ! 0 = 64
         \<and> scheme (info col) = CS_KERNEL_STOCKHAM_BLOCK_CC)"
    by auto
  from Real2DEven_strategy [OF a(1) u] scl n st
  have uu: "solution (info u) = TR_PAIR"
    by auto
  from a t cc(1) tt u st uu show ?thesis
    by blast
qed

section \<open>The embed-in-complex strategy\<close>

text \<open>
  C3.  A node that is decomposed by \<open>CS_REAL_TRANSFORM_USING_CMPLX\<close>, has no children yet
  and whose tree is built, gets exactly three children, in this order: the head copy
  (\<open>CS_KERNEL_COPY_R_TO_CMPLX\<close> for real input, \<open>CS_KERNEL_COPY_HERM_TO_CMPLX\<close> otherwise);
  the complex transform, the explicit node made from metadata whose length is the vector
  of the real extents (the length the node was given), built, and with the output type of
  its last leaf restricted; and the tail copy (\<open>CS_KERNEL_COPY_CMPLX_TO_HERM\<close> for real input,
  \<open>CS_KERNEL_COPY_CMPLX_TO_R\<close> otherwise).  The layout pass of the scheme asserts three
  children: it fails on any node with another number of children, and its assertion holds
  on the built node.
\<close>

theorem RealTransCmplx_three_children:
  assumes kids: "childNodes this = []"
      and build: "RealTransCmplxNode_BuildTree_internal env this = Inr t"
  shows "(\<exists>head fft tail n rl cl md built.
            set_complex_length (info this) = Inr (n, rl, cl) \<and> info t = n
          \<and> childNodes t = [head, fft, tail]
          \<and> childNodes head = []
          \<and> scheme (info head)
              = (if inArrayType (info this) = rocfft_array_type_real
                 then CS_KERNEL_COPY_R_TO_CMPLX else CS_KERNEL_COPY_HERM_TO_CMPLX)
          \<and> md_length md = lengthv (info this) \<and> md_dimension md = dimension (info this)
          \<and> RecursiveBuildTree env (CreateExplicitNode env md n) = Inr built
          \<and> GetLastLeaf_update
               (\<lambda>i. i\<lparr>allowedOutArrayTypes := [rocfft_array_type_complex_interleaved]\<rparr>) built
              = Inr fft
          \<and> childNodes tail = []
          \<and> lengthv (info tail) = lengthv (info this)
          \<and> scheme (info tail)
              = (if inArrayType (info this) = rocfft_array_type_real
                 then CS_KERNEL_COPY_CMPLX_TO_HERM else CS_KERNEL_COPY_CMPLX_TO_R))
       \<and> (length (childNodes u) \<noteq> 3 \<longrightarrow>
            RealTransCmplxNode_AssignParams_internal env u = Inl AssertionFailed)
       \<and> assert_that (length (childNodes t) = 3) = Inr ()"
proof -
  from build obtain n rl cl where
    scl: "set_complex_length (info this) = Inr (n, rl, cl)"
    by (auto simp: RealTransCmplxNode_BuildTree_internal_def bind_err_Inr_iff Let_def)
  from set_complex_length_Inr [OF scl] have real: "deref n rl = lengthv (info this)"
    by auto
  note keep = set_complex_length_keeps [OF scl]
  let ?md = "(NodeMetaData_of n)\<lparr>md_dimension := dimension n, md_length := deref n rl\<rparr>"
  have md: "md_length ?md = lengthv (info this)" "md_dimension ?md = dimension (info this)"
    using real keep by simp_all
  from build scl kids have shape: "\<exists>head fft tail built.
            info t = n
          \<and> childNodes t = [head, fft, tail]
          \<and> childNodes head = []
          \<and> scheme (info head)
              = (if inArrayType (info this) = rocfft_array_type_real
                 then CS_KERNEL_COPY_R_TO_CMPLX else CS_KERNEL_COPY_HERM_TO_CMPLX)
          \<and> RecursiveBuildTree env (CreateExplicitNode env ?md n) = Inr built
          \<and> GetLastLeaf_update
               (\<lambda>i. i\<lparr>allowedOutArrayTypes := [rocfft_array_type_complex_interleaved]\<rparr>) built
              = Inr fft
          \<and> childNodes tail = []
          \<and> lengthv (info tail) = deref n rl
          \<and> scheme (info tail)
              = (if inArrayType (info this) = rocfft_array_type_real
                 then CS_KERNEL_COPY_CMPLX_TO_HERM else CS_KERNEL_COPY_CMPLX_TO_R)"
    by (auto simp: RealTransCmplxNode_BuildTree_internal_def bind_err_Inr_iff Let_def)
  then obtain head fft tail built where
    parts: "info t = n" "childNodes t = [head, fft, tail]" "childNodes head = []"
      "scheme (info head)
              = (if inArrayType (info this) = rocfft_array_type_real
                 then CS_KERNEL_COPY_R_TO_CMPLX else CS_KERNEL_COPY_HERM_TO_CMPLX)"
      "RecursiveBuildTree env (CreateExplicitNode env ?md n) = Inr built"
      "GetLastLeaf_update
               (\<lambda>i. i\<lparr>allowedOutArrayTypes := [rocfft_array_type_complex_interleaved]\<rparr>) built
              = Inr fft"
      "childNodes tail = []" "lengthv (info tail) = deref n rl"
      "scheme (info tail)
              = (if inArrayType (info this) = rocfft_array_type_real
                 then CS_KERNEL_COPY_CMPLX_TO_HERM else CS_KERNEL_COPY_CMPLX_TO_R)"
    by blast
  have first: "\<exists>head fft tail n rl cl md built.
            set_complex_length (info this) = Inr (n, rl, cl) \<and> info t = n
          \<and> childNodes t = [head, fft, tail]
          \<and> childNodes head = []
          \<and> scheme (info head)
              = (if inArrayType (info this) = rocfft_array_type_real
                 then CS_KERNEL_COPY_R_TO_CMPLX else CS_KERNEL_COPY_HERM_TO_CMPLX)
          \<and> md_length md = lengthv (info this) \<and> md_dimension md = dimension (info this)
          \<and> RecursiveBuildTree env (CreateExplicitNode env md n) = Inr built
          \<and> GetLastLeaf_update
               (\<lambda>i. i\<lparr>allowedOutArrayTypes := [rocfft_array_type_complex_interleaved]\<rparr>) built
              = Inr fft
          \<and> childNodes tail = []
          \<and> lengthv (info tail) = lengthv (info this)
          \<and> scheme (info tail)
              = (if inArrayType (info this) = rocfft_array_type_real
                 then CS_KERNEL_COPY_CMPLX_TO_HERM else CS_KERNEL_COPY_CMPLX_TO_R)"
    apply (rule exI [of _ head], rule exI [of _ fft], rule exI [of _ tail], rule exI [of _ n])
    apply (rule exI [of _ rl], rule exI [of _ cl], rule exI [of _ ?md], rule exI [of _ built])
    using scl parts md real by simp
  have assert: "length (childNodes u) \<noteq> 3 \<longrightarrow>
            RealTransCmplxNode_AssignParams_internal env u = Inl AssertionFailed"
    by (simp add: RealTransCmplxNode_AssignParams_internal_def assert_that_def bind_err_def)
  have three: "assert_that (length (childNodes t) = 3) = Inr ()"
    by (simp add: parts(2) assert_that_def)
  from first assert three show ?thesis
    by (intro conjI)
qed

theorem RealTransCmplx_three_children_witness:
  "\<exists>t. childNodes (TreeNode (sample_node\<lparr>scheme := CS_REAL_TRANSFORM_USING_CMPLX, lengthv := [15],
                                           inArrayType := rocfft_array_type_real\<rparr>) []) = []
      \<and> RealTransCmplxNode_BuildTree_internal (sample_env NT_LEAF)
           (TreeNode (sample_node\<lparr>scheme := CS_REAL_TRANSFORM_USING_CMPLX, lengthv := [15],
                                   inArrayType := rocfft_array_type_real\<rparr>) []) = Inr t
      \<and> (\<exists>head fft tail. childNodes t = [head, fft, tail]
            \<and> scheme (info head) = CS_KERNEL_COPY_R_TO_CMPLX
            \<and> scheme (info tail) = CS_KERNEL_COPY_CMPLX_TO_HERM
            \<and> lengthv (info tail) = [15])
      \<and> length (childNodes (TreeNode sample_node [])) \<noteq> 3
      \<and> RealTransCmplxNode_AssignParams_internal (sample_env NT_LEAF) (TreeNode sample_node [])
          = Inl AssertionFailed"
proof -
  let ?a = "TreeNode (sample_node\<lparr>scheme := CS_REAL_TRANSFORM_USING_CMPLX, lengthv := [15],
                                    inArrayType := rocfft_array_type_real\<rparr>) []"
  obtain t where t: "RealTransCmplxNode_BuildTree_internal (sample_env NT_LEAF) ?a = Inr t"
    by (simp add: RealTransCmplxNode_BuildTree_internal_def build_eval)
  have a: "childNodes ?a = []" "inArrayType (info ?a) = rocfft_array_type_real"
    "lengthv (info ?a) = [15]" "length (childNodes (TreeNode sample_node [])) \<noteq> 3"
    by (simp_all add: sample_node_def)
  note three = RealTransCmplx_three_children
    [OF a(1) t, where u = "TreeNode sample_node []"]
  from three a(2,3) have kids: "\<exists>head fft tail. childNodes t = [head, fft, tail]
            \<and> scheme (info head) = CS_KERNEL_COPY_R_TO_CMPLX
            \<and> scheme (info tail) = CS_KERNEL_COPY_CMPLX_TO_HERM
            \<and> lengthv (info tail) = [15]"
    by auto
  from three a(4) have "RealTransCmplxNode_AssignParams_internal (sample_env NT_LEAF)
      (TreeNode sample_node []) = Inl AssertionFailed"
    by blast
  with a(1,4) t kids show ?thesis
    by blast
qed

section \<open>The shared-memory limit\<close>






section \<open>A kernel selection that disagrees with the leaf\<close>

lemma key_mismatch_value:
  assumes "lengthv this = l0 # ls" and "dimension this = 2 \<longrightarrow> ls \<noteq> []"
  shows "key_mismatch this k =
           Inr (l0 \<noteq> lengths0 k
                \<or> dimension this = 2 \<and> hd ls \<noteq> lengths1 k
                \<or> precision this \<noteq> key_precision k
                \<or> scheme this \<noteq> key_scheme k
                \<or> ebtype this \<noteq> kernel_config_ebType k)"
  using assms
  by (cases ls) (auto simp: key_mismatch_def at_vec_def bind_err_def)

lemma KernelCheck_mismatch:
  assumes len: "lengthv this = l0 # ls" "dimension this = 2 \<longrightarrow> ls \<noteq> []"
      and key: "k \<noteq> EmptyFMKey"
      and mismatch: "l0 \<noteq> lengths0 k
                \<or> dimension this = 2 \<and> hd ls \<noteq> lengths1 k
                \<or> precision this \<noteq> key_precision k
                \<or> scheme this \<noteq> key_scheme k
                \<or> ebtype this \<noteq> kernel_config_ebType k"
  shows "KernelCheck le pool this (k # ks)
           = Inr (False, if externalKernel this then this\<lparr>specified_key := None\<rparr> else this,
                  if externalKernel this then ks else k # ks, pool)"
proof (cases "externalKernel this")
  case True
  let ?n = "this\<lparr>specified_key := None\<rparr>"
  have "lengthv ?n = l0 # ls" "dimension ?n = 2 \<longrightarrow> ls \<noteq> []"
    using len by simp_all
  from key_mismatch_value [OF this, of k] mismatch
  have mm: "key_mismatch ?n k = Inr True"
    by simp
  from True key show ?thesis
    by (simp add: KernelCheck_def mm bind_err_def)
next
  case False
  with key show ?thesis
    by (simp add: KernelCheck_def)
qed

lemma KernelCheck_default:
  assumes ext: "externalKernel this"
  shows "\<not> has_function pool (LeafNode_GetKernelKey le (this\<lparr>specified_key := None\<rparr>)) \<Longrightarrow>
           KernelCheck le pool this [] = Inr (False, this\<lparr>specified_key := None\<rparr>, [], pool)"
    and "has_function pool (LeafNode_GetKernelKey le (this\<lparr>specified_key := None\<rparr>)) \<Longrightarrow>
         (\<forall>d. LeafNode_GetKernelKey le (this\<lparr>specified_key := None, dir2regMode := d\<rparr>)
                 = LeafNode_GetKernelKey le (this\<lparr>specified_key := None\<rparr>)) \<Longrightarrow>
           \<exists>kern. get_kernel pool (LeafNode_GetKernelKey le (this\<lparr>specified_key := None\<rparr>)) = Inr kern
             \<and> KernelCheck le pool this []
                 = Inr (True,
                        this\<lparr>specified_key := None,
                              dir2regMode := (if direct_to_from_reg kern then TRY_ENABLE_IF_SUPPORT
                                              else FORCE_OFF_OR_NOT_SUPPORT),
                              kernelFactors := factors kern\<rparr>, [], pool)"
proof -
  let ?n = "this\<lparr>specified_key := None\<rparr>"
  show "KernelCheck le pool this [] = Inr (False, ?n, [], pool)"
    if "\<not> has_function pool (LeafNode_GetKernelKey le ?n)"
    using that ext by (simp add: KernelCheck_def bind_err_def)
  show "\<exists>kern. get_kernel pool (LeafNode_GetKernelKey le ?n) = Inr kern
             \<and> KernelCheck le pool this []
                 = Inr (True,
                        this\<lparr>specified_key := None,
                              dir2regMode := (if direct_to_from_reg kern then TRY_ENABLE_IF_SUPPORT
                                              else FORCE_OFF_OR_NOT_SUPPORT),
                              kernelFactors := factors kern\<rparr>, [], pool)"
    if has: "has_function pool (LeafNode_GetKernelKey le ?n)"
      and stable: "\<forall>d. LeafNode_GetKernelKey le (this\<lparr>specified_key := None, dir2regMode := d\<rparr>)
                      = LeafNode_GetKernelKey le ?n"
  proof -
    from has obtain kern where kern: "get_kernel pool (LeafNode_GetKernelKey le ?n) = Inr kern"
      by (auto simp: has_function_def get_kernel_def)
    from ext has kern stable have "KernelCheck le pool this []
                 = Inr (True,
                        this\<lparr>specified_key := None,
                              dir2regMode := (if direct_to_from_reg kern then TRY_ENABLE_IF_SUPPORT
                                              else FORCE_OFF_OR_NOT_SUPPORT),
                              kernelFactors := factors kern\<rparr>, [], pool)"
      by (simp add: KernelCheck_def GetKernelFactors_def bind_err_def Let_def)
    with kern show ?thesis
      by blast
  qed
qed

text \<open>
  C8.  Let a kernel be selected for a leaf by a key \<open>k\<close> other than the empty key, and let
  \<open>k\<close> disagree with the leaf in the fastest length, in the second length of a 2-D leaf,
  in the precision, in the scheme or in the embedded type.  Then \<^verbatim>\<open>KernelCheck\<close> answers
  false without touching the catalog (for an external kernel the key is consumed and no
  kernel is selected; a built-in kernel accepts no key but the empty one), and
  \<^verbatim>\<open>SanityCheck\<close> raises the runtime error that names the mismatch.  The caller of plan
  construction answers this error by the check with the default selection: for an
  external kernel that check fails with the same error when the catalog has no kernel for
  the key of the leaf itself, and it passes on to the check of the base class when the
  catalog has one (the key of the base class not depending on \<open>dir2regMode\<close>); for a
  built-in kernel it always passes on to the check of the base class.
\<close>

theorem kernel_mismatch_falls_back_to_default:
  assumes len: "lengthv this = l0 # ls" "dimension this = 2 \<longrightarrow> ls \<noteq> []"
      and key: "k \<noteq> EmptyFMKey"
      and mismatch: "l0 \<noteq> lengths0 k
                \<or> dimension this = 2 \<and> hd ls \<noteq> lengths1 k
                \<or> precision this \<noteq> key_precision k
                \<or> scheme this \<noteq> key_scheme k
                \<or> ebtype this \<noteq> kernel_config_ebType k"
  shows "KernelCheck le pool this (k # ks)
           = Inr (False, if externalKernel this then this\<lparr>specified_key := None\<rparr> else this,
                  if externalKernel this then ks else k # ks, pool)
       \<and> LeafNode_SanityCheck le pool this sol (k # ks)
           = Inl (RuntimeError ''Kernel not found or mismatches node (solution map issue)'')
       \<and> SanityCheck_with_fallback le pool this sol (k # ks) sol0
           = LeafNode_SanityCheck le pool this sol0 []
       \<and> (externalKernel this
            \<and> \<not> has_function pool (LeafNode_GetKernelKey le (this\<lparr>specified_key := None\<rparr>)) \<longrightarrow>
            SanityCheck_with_fallback le pool this sol (k # ks) sol0
              = Inl (RuntimeError ''Kernel not found or mismatches node (solution map issue)''))
       \<and> (externalKernel this
            \<and> has_function pool (LeafNode_GetKernelKey le (this\<lparr>specified_key := None\<rparr>))
            \<and> (\<forall>d. LeafNode_GetKernelKey le (this\<lparr>specified_key := None, dir2regMode := d\<rparr>)
                      = LeafNode_GetKernelKey le (this\<lparr>specified_key := None\<rparr>)) \<longrightarrow>
            (\<exists>kern. get_kernel pool (LeafNode_GetKernelKey le (this\<lparr>specified_key := None\<rparr>))
                       = Inr kern
               \<and> SanityCheck_with_fallback le pool this sol (k # ks) sol0
                   = bind_err (TreeNode_SanityCheck le
                                 (this\<lparr>specified_key := None,
                                       dir2regMode := (if direct_to_from_reg kern
                                                       then TRY_ENABLE_IF_SUPPORT
                                                       else FORCE_OFF_OR_NOT_SUPPORT),
                                       kernelFactors := factors kern\<rparr>) sol0 [])
                       (\<lambda>(this, kernels_keys). Inr (this, kernels_keys, pool))))
       \<and> (\<not> externalKernel this \<longrightarrow>
            SanityCheck_with_fallback le pool this sol (k # ks) sol0
              = bind_err (TreeNode_SanityCheck le this sol0 [])
                  (\<lambda>(this, kernels_keys). Inr (this, kernels_keys, pool)))"
proof -
  let ?msg = "RuntimeError ''Kernel not found or mismatches node (solution map issue)''"
  let ?n = "this\<lparr>specified_key := None\<rparr>"
  note kc = KernelCheck_mismatch [OF len key mismatch, of le pool ks]
  have sc: "LeafNode_SanityCheck le pool this sol (k # ks) = Inl ?msg"
    by (simp add: LeafNode_SanityCheck_def kc bind_err_def)
  have fb: "SanityCheck_with_fallback le pool this sol (k # ks) sol0
              = LeafNode_SanityCheck le pool this sol0 []"
    by (simp add: SanityCheck_with_fallback_def sc)
  have none: "LeafNode_SanityCheck le pool this sol0 [] = Inl ?msg"
    if "externalKernel this" "\<not> has_function pool (LeafNode_GetKernelKey le ?n)"
    using KernelCheck_default(1) [OF that]
    by (simp add: LeafNode_SanityCheck_def bind_err_def)
  have some: "\<exists>kern. get_kernel pool (LeafNode_GetKernelKey le ?n) = Inr kern
               \<and> LeafNode_SanityCheck le pool this sol0 []
                   = bind_err (TreeNode_SanityCheck le
                                 (this\<lparr>specified_key := None,
                                       dir2regMode := (if direct_to_from_reg kern
                                                       then TRY_ENABLE_IF_SUPPORT
                                                       else FORCE_OFF_OR_NOT_SUPPORT),
                                       kernelFactors := factors kern\<rparr>) sol0 [])
                       (\<lambda>(this, kernels_keys). Inr (this, kernels_keys, pool))"
    if "externalKernel this" "has_function pool (LeafNode_GetKernelKey le ?n)"
       "\<forall>d. LeafNode_GetKernelKey le (this\<lparr>specified_key := None, dir2regMode := d\<rparr>)
                      = LeafNode_GetKernelKey le ?n"
  proof -
    from KernelCheck_default(2) [OF that] obtain kern where
      kern: "get_kernel pool (LeafNode_GetKernelKey le ?n) = Inr kern"
      and ok: "KernelCheck le pool this []
                 = Inr (True,
                        this\<lparr>specified_key := None,
                              dir2regMode := (if direct_to_from_reg kern then TRY_ENABLE_IF_SUPPORT
                                              else FORCE_OFF_OR_NOT_SUPPORT),
                              kernelFactors := factors kern\<rparr>, [], pool)"
      by blast
    have "LeafNode_SanityCheck le pool this sol0 []
                   = bind_err (TreeNode_SanityCheck le
                                 (this\<lparr>specified_key := None,
                                       dir2regMode := (if direct_to_from_reg kern
                                                       then TRY_ENABLE_IF_SUPPORT
                                                       else FORCE_OFF_OR_NOT_SUPPORT),
                                       kernelFactors := factors kern\<rparr>) sol0 [])
                       (\<lambda>(this, kernels_keys). Inr (this, kernels_keys, pool))"
      unfolding LeafNode_SanityCheck_def ok by (simp add: bind_err_def)
    with kern show ?thesis
      by blast
  qed
  have builtin: "LeafNode_SanityCheck le pool this sol0 []
              = bind_err (TreeNode_SanityCheck le this sol0 [])
                  (\<lambda>(this, kernels_keys). Inr (this, kernels_keys, pool))"
    if "\<not> externalKernel this"
    using that by (simp add: LeafNode_SanityCheck_def KernelCheck_def bind_err_def)
  from kc sc fb none some builtin show ?thesis
    by simp
qed

lemmas leaf_eval =
  sample_leaf_env_def sample_leaf_def sample_node_def sample_GetKernelKey_def sample_kernel_def
  LeafNode_GetKernelKey_def GetKernelFactors_def KernelCheck_def LeafNode_SanityCheck_def
  key_mismatch_def EmptyFMKey_def fpkey_def has_function_def get_kernel_def at_vec_def bind_err_def
  NodeInfo.defs LeafNode.defs Let_def

theorem kernel_mismatch_falls_back_to_default_witness:
  "lengthv sample_leaf = [64]
   \<and> dimension sample_leaf \<noteq> 2
   \<and> fpkey 128 rocfft_precision_single CS_KERNEL_STOCKHAM \<noteq> EmptyFMKey
   \<and> 64 \<noteq> lengths0 (fpkey 128 rocfft_precision_single CS_KERNEL_STOCKHAM)
   \<and> externalKernel sample_leaf
   \<and> KernelCheck sample_leaf_env
        (Map.empty(fpkey 64 rocfft_precision_single CS_KERNEL_STOCKHAM \<mapsto> sample_kernel 8))
        sample_leaf [fpkey 128 rocfft_precision_single CS_KERNEL_STOCKHAM]
       = Inr (False, sample_leaf\<lparr>specified_key := None\<rparr>, [],
              Map.empty(fpkey 64 rocfft_precision_single CS_KERNEL_STOCKHAM \<mapsto> sample_kernel 8))
   \<and> LeafNode_SanityCheck sample_leaf_env
        (Map.empty(fpkey 64 rocfft_precision_single CS_KERNEL_STOCKHAM \<mapsto> sample_kernel 8))
        sample_leaf () [fpkey 128 rocfft_precision_single CS_KERNEL_STOCKHAM]
       = Inl (RuntimeError ''Kernel not found or mismatches node (solution map issue)'')
   \<and> has_function (Map.empty(fpkey 64 rocfft_precision_single CS_KERNEL_STOCKHAM \<mapsto> sample_kernel 8))
        (LeafNode_GetKernelKey sample_leaf_env (sample_leaf\<lparr>specified_key := None\<rparr>))
   \<and> SanityCheck_with_fallback sample_leaf_env
        (Map.empty(fpkey 64 rocfft_precision_single CS_KERNEL_STOCKHAM \<mapsto> sample_kernel 8))
        sample_leaf () [fpkey 128 rocfft_precision_single CS_KERNEL_STOCKHAM] ()
       = Inr (sample_leaf\<lparr>kernelFactors := [8, 8]\<rparr>, [],
              Map.empty(fpkey 64 rocfft_precision_single CS_KERNEL_STOCKHAM \<mapsto> sample_kernel 8))
   \<and> \<not> has_function Map.empty
        (LeafNode_GetKernelKey sample_leaf_env (sample_leaf\<lparr>specified_key := None\<rparr>))
   \<and> SanityCheck_with_fallback sample_leaf_env Map.empty
        sample_leaf () [fpkey 128 rocfft_precision_single CS_KERNEL_STOCKHAM] ()
       = Inl (RuntimeError ''Kernel not found or mismatches node (solution map issue)'')
   \<and> \<not> externalKernel (sample_leaf\<lparr>externalKernel := False\<rparr>)
   \<and> KernelCheck sample_leaf_env Map.empty (sample_leaf\<lparr>externalKernel := False\<rparr>)
        [fpkey 128 rocfft_precision_single CS_KERNEL_STOCKHAM]
       = Inr (False, sample_leaf\<lparr>externalKernel := False\<rparr>,
              [fpkey 128 rocfft_precision_single CS_KERNEL_STOCKHAM], Map.empty)
   \<and> SanityCheck_with_fallback sample_leaf_env Map.empty (sample_leaf\<lparr>externalKernel := False\<rparr>)
        () [fpkey 128 rocfft_precision_single CS_KERNEL_STOCKHAM] ()
       = Inr (sample_leaf\<lparr>externalKernel := False\<rparr>, [], Map.empty)"
proof -
  let ?pool = "Map.empty(fpkey 64 rocfft_precision_single CS_KERNEL_STOCKHAM \<mapsto> sample_kernel 8)"
  let ?k = "fpkey 128 rocfft_precision_single CS_KERNEL_STOCKHAM"
  let ?b = "sample_leaf\<lparr>externalKernel := False\<rparr>"
  have h: "lengthv sample_leaf = [64]"
    "dimension sample_leaf = 2 \<longrightarrow> ([] :: size_t list) \<noteq> []"
    "?k \<noteq> EmptyFMKey" "64 \<noteq> lengths0 ?k" "dimension sample_leaf \<noteq> 2" "externalKernel sample_leaf"
    by (simp_all add: leaf_eval)
  have m: "64 \<noteq> lengths0 ?k
                \<or> dimension sample_leaf = 2 \<and> hd [] \<noteq> lengths1 ?k
                \<or> precision sample_leaf \<noteq> key_precision ?k
                \<or> scheme sample_leaf \<noteq> key_scheme ?k
                \<or> ebtype sample_leaf \<noteq> kernel_config_ebType ?k"
    using h(4) by simp
  have hb: "lengthv ?b = [64]" "dimension ?b = 2 \<longrightarrow> ([] :: size_t list) \<noteq> []"
    "\<not> externalKernel ?b"
    by (simp_all add: leaf_eval)
  have mb: "64 \<noteq> lengths0 ?k
                \<or> dimension ?b = 2 \<and> hd [] \<noteq> lengths1 ?k
                \<or> precision ?b \<noteq> key_precision ?k
                \<or> scheme ?b \<noteq> key_scheme ?k
                \<or> ebtype ?b \<noteq> kernel_config_ebType ?k"
    using h(4) by simp
  have d: "has_function ?pool (LeafNode_GetKernelKey sample_leaf_env (sample_leaf\<lparr>specified_key := None\<rparr>))"
    "\<forall>d. LeafNode_GetKernelKey sample_leaf_env (sample_leaf\<lparr>specified_key := None, dir2regMode := d\<rparr>)
         = LeafNode_GetKernelKey sample_leaf_env (sample_leaf\<lparr>specified_key := None\<rparr>)"
    "\<not> has_function Map.empty
        (LeafNode_GetKernelKey sample_leaf_env (sample_leaf\<lparr>specified_key := None\<rparr>))"
    by (simp_all add: leaf_eval)
  have e: "LeafNode_SanityCheck sample_leaf_env ?pool sample_leaf () []
             = Inr (sample_leaf\<lparr>kernelFactors := [8, 8]\<rparr>, [], ?pool)"
    "LeafNode_SanityCheck sample_leaf_env Map.empty ?b () [] = Inr (?b, [], Map.empty)"
    by (simp_all add: leaf_eval)
  note with_kernel = kernel_mismatch_falls_back_to_default
    [OF h(1) h(2) h(3) m, where le = sample_leaf_env and pool = ?pool
       and ks = "[]" and sol = "()" and ?sol0.0 = "()"]
  note without = kernel_mismatch_falls_back_to_default
    [OF h(1) h(2) h(3) m, where le = sample_leaf_env and pool = Map.empty
       and ks = "[]" and sol = "()" and ?sol0.0 = "()"]
  note builtin = kernel_mismatch_falls_back_to_default
    [OF hb(1) hb(2) h(3) mb, where le = sample_leaf_env and pool = Map.empty
       and ks = "[]" and sol = "()" and ?sol0.0 = "()"]
  from with_kernel h(6) e(1) have a1: "KernelCheck sample_leaf_env ?pool sample_leaf [?k]
       = Inr (False, sample_leaf\<lparr>specified_key := None\<rparr>, [], ?pool)"
    "LeafNode_SanityCheck sample_leaf_env ?pool sample_leaf () [?k]
       = Inl (RuntimeError ''Kernel not found or mismatches node (solution map issue)'')"
    "SanityCheck_with_fallback sample_leaf_env ?pool sample_leaf () [?k] ()
       = Inr (sample_leaf\<lparr>kernelFactors := [8, 8]\<rparr>, [], ?pool)"
    by simp_all
  from without h(6) d(3) have a2: "SanityCheck_with_fallback sample_leaf_env Map.empty
        sample_leaf () [?k] ()
       = Inl (RuntimeError ''Kernel not found or mismatches node (solution map issue)'')"
    by blast
  from builtin hb(3) e(2) have a3: "KernelCheck sample_leaf_env Map.empty ?b [?k]
       = Inr (False, ?b, [?k], Map.empty)"
    "SanityCheck_with_fallback sample_leaf_env Map.empty ?b () [?k] () = Inr (?b, [], Map.empty)"
    by simp_all
  from h d hb a1 a2 a3 show ?thesis
    by simp
qed

section \<open>Collapsing preserves the element count\<close>

lemma contiguous_step:
  fixes cur s l :: size_t
  assumes "cur mod s = 0" and "cur div s = l"
  shows "unat cur = unat s * unat l"
proof -
  from assms(1) have "unat cur mod unat s = 0"
    by (metis unat_mod unsigned_0)
  moreover from assms(2) have "unat cur div unat s = unat l"
    by (metis unat_div)
  ultimately show ?thesis
    by (metis add.right_neutral mult_div_mod_eq)
qed

lemma collect_loop_result:
  assumes "collect_loop len stride todo cur acc nb = Inr (dims, nb')"
  shows "\<exists>pre suf. dims = acc @ pre \<and> todo = pre @ suf
           \<and> nb' = nb * prod_list (map ((!) len) pre)
           \<and> contiguous_chain cur len stride pre"
  using assms
proof (induction todo arbitrary: cur acc nb)
  case Nil
  then show ?case
    by simp
next
  case (Cons i rest)
  show ?case
  proof (cases "i < length stride \<and> i < length len \<and> stride ! i \<noteq> 0
                  \<and> cur mod (stride ! i) = 0 \<and> cur div (stride ! i) = len ! i")
    case True
    with Cons.prems have
      "collect_loop len stride rest (stride ! i) (acc @ [i]) (nb * (len ! i)) = Inr (dims, nb')"
      by (simp add: at_vec_def bind_err_def)
    from Cons.IH [OF this] obtain pre suf where
      pre: "dims = (acc @ [i]) @ pre" "rest = pre @ suf"
           "nb' = nb * (len ! i) * prod_list (map ((!) len) pre)"
           "contiguous_chain (stride ! i) len stride pre"
      by blast
    from True have "unat cur = unat (stride ! i) * unat (len ! i)"
      by (simp add: contiguous_step)
    with True pre have "dims = acc @ (i # pre) \<and> i # rest = (i # pre) @ suf
           \<and> nb' = nb * prod_list (map ((!) len) (i # pre))
           \<and> contiguous_chain cur len stride (i # pre)"
      by (simp add: mult.assoc)
    then show ?thesis
      by blast
  next
    case False
    with Cons.prems have "dims = acc \<and> nb' = nb"
      by (auto simp: at_vec_def bind_err_def split: if_splits)
    then have "dims = acc @ [] \<and> i # rest = [] @ (i # rest)
           \<and> nb' = nb * prod_list (map ((!) len) [])
           \<and> contiguous_chain cur len stride []"
      by simp
    then show ?thesis
      by blast
  qed
qed

lemma collectCollapse_result:
  assumes "collectCollapse cd dist nb len stride = Inr (dims, nb')"
      and "sorted_wrt (<) cd"
  shows "nb' = nb * prod_list (map ((!) len) dims)"
    and "contiguous_chain dist len stride dims"
    and "sorted_wrt (>) dims"
proof -
  from collect_loop_result [OF assms(1) [unfolded collectCollapse_def]] obtain suf where
    *: "rev cd = dims @ suf" "nb' = nb * prod_list (map ((!) len) dims)"
       "contiguous_chain dist len stride dims"
    by auto
  from assms(2) have "sorted_wrt (>) (rev cd)"
    by (simp add: sorted_wrt_rev)
  with *(1) have "sorted_wrt (>) dims"
    by (simp add: sorted_wrt_append)
  with * show "nb' = nb * prod_list (map ((!) len) dims)"
    "contiguous_chain dist len stride dims" "sorted_wrt (>) dims"
    by simp_all
qed

lemma prod_list_erase:
  fixes f :: "size_t \<Rightarrow> 'a::comm_monoid_mult"
  assumes "i < length v"
  shows "prod_list (map f v) = f (v ! i) * prod_list (map f (take i v @ drop (Suc i) v))"
proof -
  from assms have "v = take i v @ v ! i # drop (Suc i) v"
    by (rule id_take_nth_drop)
  then have "prod_list (map f v) = prod_list (map f (take i v @ v ! i # drop (Suc i) v))"
    by simp
  also have "\<dots> = f (v ! i) * prod_list (map f (take i v @ drop (Suc i) v))"
    by (simp add: mult.left_commute mult.assoc)
  finally show ?thesis .
qed

lemma doCollapse_result:
  fixes f :: "size_t \<Rightarrow> 'a::comm_monoid_mult"
  assumes "doCollapse dist dims len stride = Inr (d', len', stride')"
      and "sorted_wrt (>) dims"
  shows "prod_list (map f (map ((!) len) dims)) * prod_list (map f len') = prod_list (map f len)
       \<and> length len' + length dims = length len"
  using assms
proof (induction dims arbitrary: dist len stride)
  case Nil
  then show ?case
    by simp
next
  case (Cons i rest)
  from Cons.prems(1) have i: "i < length len" "i < length stride" "len ! i \<noteq> 0"
    by (auto simp: at_vec_def erase_at_def bind_err_def split: if_splits)
  let ?len = "take i len @ drop (Suc i) len"
  let ?stride = "take i stride @ drop (Suc i) stride"
  from Cons.prems(1) i have run: "doCollapse (dist div (len ! i)) rest ?len ?stride
                                    = Inr (d', len', stride')"
    by (simp add: at_vec_def erase_at_def bind_err_def)
  from Cons.prems(2) have below: "\<forall>j \<in> set rest. j < i" and sorted: "sorted_wrt (>) rest"
    by auto
  from Cons.IH [OF run sorted]
  have ih: "prod_list (map f (map ((!) ?len) rest)) * prod_list (map f len')
              = prod_list (map f ?len)"
    "length len' + length rest = length ?len"
    by simp_all
  from below i have "map ((!) ?len) rest = map ((!) len) rest"
    by (auto simp: nth_append)
  with ih have "prod_list (map f (map ((!) len) rest)) * prod_list (map f len')
                  = prod_list (map f ?len)"
    by simp
  with prod_list_erase [OF i(1), of f]
  have "prod_list (map f (map ((!) len) (i # rest))) * prod_list (map f len')
          = prod_list (map f len)"
    by (simp add: mult.assoc)
  moreover from ih(2) i(1) have "length len' + length (i # rest) = length len"
    by simp
  ultimately show ?case
    by blast
qed

lemma unat_prod_list: "unat (prod_list ws) = prod_list (map unat ws) mod 2 ^ 64"
  for ws :: "size_t list"
proof (induction ws)
  case Nil
  show ?case
    by simp
next
  case (Cons w ws)
  have "unat (w * prod_list ws) = unat w * unat (prod_list ws) mod 2 ^ 64"
    by (simp add: unat_word_ariths)
  also have "\<dots> = unat w * (prod_list (map unat ws) mod 2 ^ 64) mod 2 ^ 64"
    by (simp add: Cons.IH)
  also have "\<dots> = unat w * prod_list (map unat ws) mod 2 ^ 64"
    by (simp add: mod_mult_right_eq)
  finally show ?case
    by simp
qed

lemma CollapseContiguousDims_node_steps:
  assumes "CollapseContiguousDims_node cd n = Inr n'" and "cd \<noteq> []"
  shows "\<exists>inDims inB outDims outB.
           collectCollapse cd (iDist n) (batch n) (lengthv n) (inStride n) = Inr (inDims, inB)
         \<and> collectCollapse cd (oDist n) (batch n) (GetOutputLength n) (outStride n)
             = Inr (outDims, outB)
         \<and> (inDims \<noteq> outDims \<or> inB \<noteq> outB \<longrightarrow> n' = n)
         \<and> (inDims = outDims \<and> inB = outB \<longrightarrow>
              (\<exists>d l s d2 l2 s2.
                 doCollapse (iDist n) inDims (lengthv n) (inStride n) = Inr (d, l, s)
               \<and> doCollapse (oDist n) outDims (GetOutputLength n) (outStride n) = Inr (d2, l2, s2)
               \<and> batch n' = inB \<and> lengthv n' = l \<and> inStride n' = s \<and> iDist n' = d
               \<and> outStride n' = s2 \<and> oDist n' = d2
               \<and> outputLength n' = (if outputLength n \<noteq> [] then l2 else [])))"
proof -
  note defs = CollapseContiguousDims_node_def bind_err_def Let_def
  obtain inDims inB where
    cin: "collectCollapse cd (iDist n) (batch n) (lengthv n) (inStride n) = Inr (inDims, inB)"
    using assms
    by (cases "collectCollapse cd (iDist n) (batch n) (lengthv n) (inStride n)")
       (auto simp: defs)
  obtain outDims outB where
    cout: "collectCollapse cd (oDist n) (batch n) (GetOutputLength n) (outStride n)
             = Inr (outDims, outB)"
    using assms cin
    by (cases "collectCollapse cd (oDist n) (batch n) (GetOutputLength n) (outStride n)")
       (auto simp: defs)
  have same: "inDims \<noteq> outDims \<or> inB \<noteq> outB \<longrightarrow> n' = n"
    using assms cin cout by (auto simp: defs)
  have coll: "\<exists>d l s d2 l2 s2.
                 doCollapse (iDist n) inDims (lengthv n) (inStride n) = Inr (d, l, s)
               \<and> doCollapse (oDist n) outDims (GetOutputLength n) (outStride n) = Inr (d2, l2, s2)
               \<and> batch n' = inB \<and> lengthv n' = l \<and> inStride n' = s \<and> iDist n' = d
               \<and> outStride n' = s2 \<and> oDist n' = d2
               \<and> outputLength n' = (if outputLength n \<noteq> [] then l2 else [])"
    if eq: "inDims = outDims \<and> inB = outB"
  proof -
    obtain d l s where
      din: "doCollapse (iDist n) inDims (lengthv n) (inStride n) = Inr (d, l, s)"
      using assms cin cout eq
      by (cases "doCollapse (iDist n) inDims (lengthv n) (inStride n)")
         (auto simp: defs split: if_splits)
    obtain d2 l2 s2 where
      dout: "doCollapse (oDist n) outDims (GetOutputLength n) (outStride n) = Inr (d2, l2, s2)"
      using assms cin cout eq din
      by (cases "doCollapse (oDist n) outDims (GetOutputLength n) (outStride n)")
         (auto simp: defs split: if_splits)
    have "batch n' = inB \<and> lengthv n' = l \<and> inStride n' = s \<and> iDist n' = d
               \<and> outStride n' = s2 \<and> oDist n' = d2
               \<and> outputLength n' = (if outputLength n \<noteq> [] then l2 else [])"
      using assms cin cout eq din dout
      by (auto simp: defs split: if_splits)
    with din dout show ?thesis
      by blast
  qed
  from cin cout same coll show ?thesis
    by blast
qed

lemma CollapseContiguousDims_node_count:
  assumes run: "CollapseContiguousDims_node cd n = Inr n'"
      and sorted: "sorted_wrt (<) cd"
  shows "batch n' * prod_list (lengthv n') = batch n * prod_list (lengthv n)"
    and "outputLength n \<noteq> [] \<Longrightarrow>
           batch n' * prod_list (outputLength n') = batch n * prod_list (outputLength n)"
    and "outputLength n = [] \<or> length (outputLength n) = length (lengthv n) \<Longrightarrow>
           batch n' * prod_list (GetOutputLength n') = batch n * prod_list (GetOutputLength n)"
proof -
  have "batch n' * prod_list (lengthv n') = batch n * prod_list (lengthv n)
      \<and> (outputLength n \<noteq> [] \<longrightarrow>
           batch n' * prod_list (outputLength n') = batch n * prod_list (outputLength n))
      \<and> (outputLength n = [] \<or> length (outputLength n) = length (lengthv n) \<longrightarrow>
           batch n' * prod_list (GetOutputLength n') = batch n * prod_list (GetOutputLength n))"
  proof (cases "cd = []")
    case True
    with run show ?thesis
      by (simp add: CollapseContiguousDims_node_def)
  next
    case False
    from CollapseContiguousDims_node_steps [OF run False] obtain inDims inB outDims outB where
      cin: "collectCollapse cd (iDist n) (batch n) (lengthv n) (inStride n) = Inr (inDims, inB)"
      and cout: "collectCollapse cd (oDist n) (batch n) (GetOutputLength n) (outStride n)
             = Inr (outDims, outB)"
      and same: "inDims \<noteq> outDims \<or> inB \<noteq> outB \<longrightarrow> n' = n"
      and coll: "inDims = outDims \<and> inB = outB \<longrightarrow>
              (\<exists>d l s d2 l2 s2.
                 doCollapse (iDist n) inDims (lengthv n) (inStride n) = Inr (d, l, s)
               \<and> doCollapse (oDist n) outDims (GetOutputLength n) (outStride n) = Inr (d2, l2, s2)
               \<and> batch n' = inB \<and> lengthv n' = l \<and> inStride n' = s \<and> iDist n' = d
               \<and> outStride n' = s2 \<and> oDist n' = d2
               \<and> outputLength n' = (if outputLength n \<noteq> [] then l2 else []))"
      by blast
    show ?thesis
    proof (cases "inDims = outDims \<and> inB = outB")
      case False
      with same show ?thesis
        by auto
    next
      case True
      with coll obtain d l s d2 l2 s2 where
        din: "doCollapse (iDist n) inDims (lengthv n) (inStride n) = Inr (d, l, s)"
        and dout: "doCollapse (oDist n) outDims (GetOutputLength n) (outStride n) = Inr (d2, l2, s2)"
        and n': "batch n' = inB" "lengthv n' = l"
                "outputLength n' = (if outputLength n \<noteq> [] then l2 else [])"
        by blast
      note ci = collectCollapse_result [OF cin sorted]
      note co = collectCollapse_result [OF cout sorted]
      from doCollapse_result [OF din ci(3), of id]
      have pin: "prod_list (map ((!) (lengthv n)) inDims) * prod_list l = prod_list (lengthv n)"
        and lin: "length l + length inDims = length (lengthv n)"
        by simp_all
      from doCollapse_result [OF dout co(3), of id]
      have pout: "prod_list (map ((!) (GetOutputLength n)) outDims) * prod_list l2
                    = prod_list (GetOutputLength n)"
        and lout: "length l2 + length outDims = length (GetOutputLength n)"
        by simp_all
      have first: "batch n' * prod_list (lengthv n') = batch n * prod_list (lengthv n)"
        using n' ci(1) pin by (simp add: mult.assoc)
      have temp: "inB * prod_list l2 = batch n * prod_list (GetOutputLength n)"
        using True co(1) pout by (simp add: mult.assoc)
      have second: "batch n' * prod_list (outputLength n') = batch n * prod_list (outputLength n)"
        if "outputLength n \<noteq> []"
        using that n' temp by (simp add: GetOutputLength_def)
      have third: "batch n' * prod_list (GetOutputLength n') = batch n * prod_list (GetOutputLength n)"
        if rank: "outputLength n = [] \<or> length (outputLength n) = length (lengthv n)"
      proof (cases "outputLength n = []")
        case True
        with n' first show ?thesis
          by (simp add: GetOutputLength_def)
      next
        case False
        with rank have "length (GetOutputLength n) = length (lengthv n)"
          by (simp add: GetOutputLength_def)
        with lin lout \<open>inDims = outDims \<and> inB = outB\<close> have "length l2 = length l"
          by simp
        then have "l2 = [] \<longleftrightarrow> l = []"
          by auto
        then have "prod_list (GetOutputLength n') = prod_list l2"
          using n' False by (auto simp: GetOutputLength_def)
        with n'(1) temp show ?thesis
          by simp
      qed
      from first second third show ?thesis
        by blast
    qed
  qed
  then show "batch n' * prod_list (lengthv n') = batch n * prod_list (lengthv n)"
    and "outputLength n \<noteq> [] \<Longrightarrow>
           batch n' * prod_list (outputLength n') = batch n * prod_list (outputLength n)"
    and "outputLength n = [] \<or> length (outputLength n) = length (lengthv n) \<Longrightarrow>
           batch n' * prod_list (GetOutputLength n') = batch n * prod_list (GetOutputLength n)"
    by blast+
qed

lemma CollapseContiguousDims_node_exact:
  assumes run: "CollapseContiguousDims_node cd n = Inr n'"
      and sorted: "sorted_wrt (<) cd"
      and fits: "element_count n < 2 ^ 64"
  shows "element_count n' = element_count n"
proof (cases "cd = []")
  case True
  with run show ?thesis
    by (simp add: CollapseContiguousDims_node_def)
next
  case False
  from CollapseContiguousDims_node_steps [OF run False] obtain inDims inB outDims outB where
    cin: "collectCollapse cd (iDist n) (batch n) (lengthv n) (inStride n) = Inr (inDims, inB)"
    and same: "inDims \<noteq> outDims \<or> inB \<noteq> outB \<longrightarrow> n' = n"
    and coll: "inDims = outDims \<and> inB = outB \<longrightarrow>
              (\<exists>d l s. doCollapse (iDist n) inDims (lengthv n) (inStride n) = Inr (d, l, s)
                 \<and> batch n' = inB \<and> lengthv n' = l)"
    by blast
  show ?thesis
  proof (cases "inDims = outDims \<and> inB = outB")
    case False
    with same show ?thesis
      by auto
  next
    case True
    with coll obtain d l s where
      din: "doCollapse (iDist n) inDims (lengthv n) (inStride n) = Inr (d, l, s)"
      and n': "batch n' = inB" "lengthv n' = l"
      by blast
    note ci = collectCollapse_result [OF cin sorted]
    let ?B = "unat (batch n)"
    let ?P = "prod_list (map unat (map ((!) (lengthv n)) inDims))"
    let ?R = "prod_list (map unat l)"
    from doCollapse_result [OF din ci(3), of unat]
    have split: "?P * ?R = prod_list (map unat (lengthv n))"
      by simp
    then have total: "element_count n = ?B * ?P * ?R"
      by (simp add: element_count_def mult.assoc)
    have "unat inB = ?B * unat (prod_list (map ((!) (lengthv n)) inDims)) mod 2 ^ 64"
      by (simp add: ci(1) unat_word_ariths)
    also have "\<dots> = ?B * (?P mod 2 ^ 64) mod 2 ^ 64"
      by (simp add: unat_prod_list)
    also have "\<dots> = ?B * ?P mod 2 ^ 64"
      by (simp add: mod_mult_right_eq)
    finally have inB: "unat inB = ?B * ?P mod 2 ^ 64" .
    show ?thesis
    proof (cases "?R = 0")
      case True
      with total n' show ?thesis
        by (simp add: element_count_def)
    next
      case False
      then have "?B * ?P * 1 \<le> ?B * ?P * ?R"
        by (intro mult_le_mono2) simp
      then have "?B * ?P \<le> element_count n"
        by (simp add: total)
      from this fits have "?B * ?P < 2 ^ 64"
        by (rule le_less_trans)
      with inB have "unat inB = ?B * ?P"
        by simp
      then have "element_count n' = ?B * ?P * ?R"
        by (simp add: element_count_def n')
      with total show ?thesis
        by simp
    qed
  qed
qed

lemma sequence_err_nth:
  assumes "sequence_err (map f cs) = Inr cs'"
  shows "length cs' = length cs \<and> (\<forall>j < length cs. f (cs ! j) = Inr (cs' ! j))"
  using assms
proof (induction cs arbitrary: cs')
  case Nil
  then show ?case
    by simp
next
  case (Cons c cs)
  from Cons.prems obtain x xs where
    x: "f c = Inr x" and xs: "sequence_err (map f cs) = Inr xs" and cs': "cs' = x # xs"
    by (auto simp: bind_err_Inr_iff)
  from Cons.IH [OF xs] x cs' show ?case
    by (auto simp: nth_Cons split: nat.splits)
qed

lemma CollapseContiguousDims_steps:
  assumes "CollapseContiguousDims cdims (TreeNode n cs) = Inr (TreeNode n' cs')"
  shows "sequence_err (map (CollapseContiguousDims cdims) cs) = Inr cs'"
    and "CollapseContiguousDims_node (cdims (TreeNode n cs')) n = Inr n'"
  using assms by (auto simp: bind_err_Inr_iff)

text \<open>
  C10.  Let every node class answer its collapsible dimensions in ascending order, as the
  code expects ("go backwards through collapsible dims so we can collapse them without
  invalidating remaining indexes"), and let the call on a node with fields \<open>n\<close> and children
  \<open>cs\<close> return the node with fields \<open>n'\<close> and children \<open>cs'\<close>.  Then
  \<^item> batch times the product of all lengths is the same before and after, in the 64-bit
    arithmetic of the code, and as a number whenever the element count fits into 64 bits;
  \<^item> likewise batch times the product of all output lengths, for the vector
    \<open>outputLength\<close> when it is set and for the output length the node reports when it is
    unset or of the rank of \<open>length\<close>;
  \<^item> without collapsible dimensions nothing changes; with them, the dimensions and the
    batch collected from the input layout and from the output layout exist, the node is
    left as it was unless the two agree, and the collected dimensions are contiguous on
    each side: the distance is stride times length of the outermost one, whose stride is
    stride times length of the next, and so on;
  \<^item> the children are the results of the calls on the children.
\<close>

theorem CollapseContiguousDims_preserves_element_count:
  assumes sorted: "\<And>t. sorted_wrt (<) (CollapsibleDims t)"
      and run: "CollapseContiguousDims CollapsibleDims (TreeNode n cs) = Inr (TreeNode n' cs')"
  shows "batch n' * prod_list (lengthv n') = batch n * prod_list (lengthv n)
       \<and> (element_count n < 2 ^ 64 \<longrightarrow> element_count n' = element_count n)
       \<and> (outputLength n \<noteq> [] \<longrightarrow>
            batch n' * prod_list (outputLength n') = batch n * prod_list (outputLength n))
       \<and> (outputLength n = [] \<or> length (outputLength n) = length (lengthv n) \<longrightarrow>
            batch n' * prod_list (GetOutputLength n') = batch n * prod_list (GetOutputLength n))
       \<and> (CollapsibleDims (TreeNode n cs') = [] \<longrightarrow> n' = n)
       \<and> (CollapsibleDims (TreeNode n cs') \<noteq> [] \<longrightarrow>
            (\<exists>inDims inB outDims outB.
               collectCollapse (CollapsibleDims (TreeNode n cs'))
                 (iDist n) (batch n) (lengthv n) (inStride n) = Inr (inDims, inB)
             \<and> collectCollapse (CollapsibleDims (TreeNode n cs'))
                 (oDist n) (batch n) (GetOutputLength n) (outStride n) = Inr (outDims, outB)
             \<and> (inDims \<noteq> outDims \<or> inB \<noteq> outB \<longrightarrow> n' = n)
             \<and> contiguous_chain (iDist n) (lengthv n) (inStride n) inDims
             \<and> contiguous_chain (oDist n) (GetOutputLength n) (outStride n) outDims))
       \<and> length cs' = length cs
       \<and> (\<forall>j < length cs. CollapseContiguousDims CollapsibleDims (cs ! j) = Inr (cs' ! j))"
proof -
  let ?cd = "CollapsibleDims (TreeNode n cs')"
  note steps = CollapseContiguousDims_steps [OF run]
  note count = CollapseContiguousDims_node_count [OF steps(2) sorted]
  have exact: "element_count n < 2 ^ 64 \<longrightarrow> element_count n' = element_count n"
    using CollapseContiguousDims_node_exact [OF steps(2) sorted] by blast
  have none: "?cd = [] \<longrightarrow> n' = n"
    using steps(2) by (auto simp: CollapseContiguousDims_node_def)
  have some: "\<exists>inDims inB outDims outB.
               collectCollapse ?cd (iDist n) (batch n) (lengthv n) (inStride n) = Inr (inDims, inB)
             \<and> collectCollapse ?cd (oDist n) (batch n) (GetOutputLength n) (outStride n)
                 = Inr (outDims, outB)
             \<and> (inDims \<noteq> outDims \<or> inB \<noteq> outB \<longrightarrow> n' = n)
             \<and> contiguous_chain (iDist n) (lengthv n) (inStride n) inDims
             \<and> contiguous_chain (oDist n) (GetOutputLength n) (outStride n) outDims"
    if ne: "?cd \<noteq> []"
  proof -
    from CollapseContiguousDims_node_steps [OF steps(2) ne] obtain inDims inB outDims outB where
      cin: "collectCollapse ?cd (iDist n) (batch n) (lengthv n) (inStride n) = Inr (inDims, inB)"
      and cout: "collectCollapse ?cd (oDist n) (batch n) (GetOutputLength n) (outStride n)
             = Inr (outDims, outB)"
      and same: "inDims \<noteq> outDims \<or> inB \<noteq> outB \<longrightarrow> n' = n"
      by blast
    from collectCollapse_result(2) [OF cin sorted] collectCollapse_result(2) [OF cout sorted]
      cin cout same
    show ?thesis
      by blast
  qed
  from count exact none some sequence_err_nth [OF steps(1)] show ?thesis
    by (intro conjI impI) blast+
qed

lemmas collapse_eval =
  CollapseContiguousDims_node_def collectCollapse_def GetOutputLength_def erase_at_def
  at_vec_def bind_err_def sample_node_def Let_def

theorem CollapseContiguousDims_preserves_element_count_witness:
  "\<exists>n' c'.
     sorted_wrt (<) [1, 2 :: nat]
   \<and> CollapseContiguousDims (\<lambda>t. [1, 2])
        (TreeNode (sample_node\<lparr>batch := 2, lengthv := [8, 4, 3], outputLength := [8, 4, 3],
                                inStride := [1, 8, 32], outStride := [1, 8, 32],
                                iDist := 96, oDist := 96\<rparr>)
           [TreeNode (sample_node\<lparr>batch := 2, lengthv := [8, 4, 3], inStride := [1, 8, 32],
                                   outStride := [1, 8, 40], iDist := 96, oDist := 120\<rparr>) []])
       = Inr (TreeNode n' [c'])
   \<and> batch n' = 24 \<and> lengthv n' = [8] \<and> outputLength n' = [8]
   \<and> batch n' * prod_list (lengthv n') = 2 * prod_list [8, 4, 3]
   \<and> batch n' * prod_list (outputLength n') = 2 * prod_list [8, 4, 3]
   \<and> element_count n' = 192
   \<and> contiguous_chain 96 [8, 4, 3] [1, 8, 32] [2, 1]
   \<and> CollapseContiguousDims (\<lambda>t. [1, 2])
        (TreeNode (sample_node\<lparr>batch := 2, lengthv := [8, 4, 3], inStride := [1, 8, 32],
                                outStride := [1, 8, 40], iDist := 96, oDist := 120\<rparr>) [])
       = Inr c'
   \<and> info c' = sample_node\<lparr>batch := 2, lengthv := [8, 4, 3], inStride := [1, 8, 32],
                              outStride := [1, 8, 40], iDist := 96, oDist := 120\<rparr>"
proof -
  let ?n = "sample_node\<lparr>batch := 2, lengthv := [8, 4, 3], outputLength := [8, 4, 3],
                         inStride := [1, 8, 32], outStride := [1, 8, 32],
                         iDist := 96, oDist := 96\<rparr>"
  let ?c = "sample_node\<lparr>batch := 2, lengthv := [8, 4, 3], inStride := [1, 8, 32],
                         outStride := [1, 8, 40], iDist := 96, oDist := 120\<rparr>"
  let ?cd = "\<lambda>t :: TreeNode. [1, 2 :: nat]"
  have c: "CollapseContiguousDims ?cd (TreeNode ?c []) = Inr (TreeNode ?c [])"
    by (simp add: collapse_eval)
  obtain n' where n': "CollapseContiguousDims ?cd (TreeNode ?n [TreeNode ?c []])
                         = Inr (TreeNode n' [TreeNode ?c []])"
    and vals: "batch n' = 24" "lengthv n' = [8]" "outputLength n' = [8]"
    by (simp add: collapse_eval)
  have s: "sorted_wrt (<) (?cd t)" for t
    by simp
  have n: "batch ?n = 2" "lengthv ?n = [8, 4, 3]" "outputLength ?n = [8, 4, 3]"
    "element_count ?n = 192" "iDist ?n = 96" "inStride ?n = [1, 8, 32]"
    by (simp_all add: sample_node_def element_count_def)
  note preserved = CollapseContiguousDims_preserves_element_count [of ?cd, OF s n']
  from preserved n(1,2)
  have p1: "batch n' * prod_list (lengthv n') = 2 * prod_list [8, 4, 3]"
    by simp
  from preserved n(1,3)
  have p2: "batch n' * prod_list (outputLength n') = 2 * prod_list [8, 4, 3]"
    by simp
  from preserved n(4) have p3: "element_count n' = 192"
    by simp
  have ch: "contiguous_chain 96 [8, 4, 3] [1, 8, 32] [2, 1]"
    by simp
  from n' vals p1 p2 p3 ch c show ?thesis
    by (intro exI [of _ n'] exI [of _ "TreeNode ?c []"]) simp
qed

section \<open>When the builders return\<close>

lemma set_complex_length_returns:
  "lengthv node \<noteq> [] \<Longrightarrow> \<exists>n rl cl. set_complex_length node = Inr (n, rl, cl)"
  by (cases "lengthv node") (simp_all add: set_complex_length_def Let_def)

lemma RealTransCmplxNode_BuildTree_internal_returns:
  assumes len: "lengthv (info this) \<noteq> []"
      and sub: "\<And>x. \<exists>y z. RecursiveBuildTree env x = Inr y
                  \<and> GetLastLeaf_update
                       (\<lambda>i. i\<lparr>allowedOutArrayTypes := [rocfft_array_type_complex_interleaved]\<rparr>) y
                      = Inr z"
  shows "\<exists>t. RealTransCmplxNode_BuildTree_internal env this = Inr t"
proof -
  from set_complex_length_returns [OF len] obtain n rl cl where
    scl: "set_complex_length (info this) = Inr (n, rl, cl)"
    by blast
  let ?x = "CreateExplicitNode env
              ((NodeMetaData_of n)\<lparr>md_dimension := dimension n, md_length := deref n rl\<rparr>) n"
  from sub [of ?x] obtain y z where
    "RecursiveBuildTree env ?x = Inr y"
    "GetLastLeaf_update
       (\<lambda>i. i\<lparr>allowedOutArrayTypes := [rocfft_array_type_complex_interleaved]\<rparr>) y = Inr z"
    by blast
  with scl show ?thesis
    by (simp add: RealTransCmplxNode_BuildTree_internal_def bind_err_def Let_def)
qed

lemma RealTransEvenNode_BuildTree_internal_returns:
  assumes len: "lengthv (info this) = L # ls" and even: "L mod 2 = 0"
      and sub: "\<And>x. \<exists>y z. RecursiveBuildTree env x = Inr y \<and> lengthv (info y) \<noteq> []
                  \<and> GetLastLeaf_update
                       (\<lambda>i. i\<lparr>allowedOutArrayTypes := [rocfft_array_type_complex_interleaved]\<rparr>) y
                      = Inr z"
  shows "\<exists>t cerr. RealTransEvenNode_BuildTree_internal env this = Inr (t, cerr)"
proof -
  from len set_complex_length_returns [of "info this"] obtain n rl cl where
    scl: "set_complex_length (info this) = Inr (n, rl, cl)"
    by auto
  from set_complex_length_Inr [OF scl] len have real: "deref n rl = L # ls"
    and cplx: "deref n cl = (L div 2 + 1) # ls" and out: "outputLength n \<noteq> []"
    by (cases "direction (info this) = - 1"; auto)+
  let ?x = "map_info (\<lambda>i. i\<lparr>allowOutofplace := False\<rparr>)
              (CreateExplicitNode env
                 ((NodeMetaData_of n)\<lparr>md_dimension := dimension n, md_length := (L div 2) # ls\<rparr>) n)"
  from sub [of ?x] obtain y z where
    y: "RecursiveBuildTree env ?x = Inr y" "lengthv (info y) \<noteq> []"
    "GetLastLeaf_update
       (\<lambda>i. i\<lparr>allowedOutArrayTypes := [rocfft_array_type_complex_interleaved]\<rparr>) y = Inr z"
    by blast
  from y(2) obtain a as where ya: "lengthv (info y) = a # as"
    by (cases "lengthv (info y)") auto
  from out obtain b bs where ob: "outputLength n = b # bs"
    by (cases "outputLength n") auto
  have fwd: "\<exists>t cerr. RealTransEvenNode_case_forward env m (childNodes this) rl cl y = Inr (t, cerr)"
    if "deref m rl = L # ls" for m
    using that y ya
    by (simp add: RealTransEvenNode_case_forward_def bind_err_def Let_def modify_vec_def)
  have inv: "\<exists>t cerr. RealTransEvenNode_case_inverse env m (childNodes this) rl cl y = Inr (t, cerr)"
    if "outputLength m = b # bs" for m
    using that
    by (simp add: RealTransEvenNode_case_inverse_def bind_err_def Let_def modify_vec_def)
  let ?m = "if try_fuse_pre_post_processing n
            then n\<lparr>try_fuse_pre_post_processing := isLeafNode y\<rparr> else n"
  have m: "deref ?m rl = L # ls" "outputLength ?m = b # bs"
    using real ob by (cases rl; simp)+
  from fwd [OF m(1)] inv [OF m(2)] len even scl real y(1)
  show ?thesis
    by (cases "try_fuse_pre_post_processing n";
        simp add: RealTransEvenNode_BuildTree_internal_def bind_err_def Let_def modify_vec_def
          at_vec_def assert_that_def)
qed

end
